theory Spec2Isabelle
  imports Main "HOL-Library.Char_ord" "HOL-Library.List_Lexorder" "HOL-Library.Product_Lexorder"
    "HOL-Library.Multiset"
begin

section \<open>Python values\<close>

text \<open>
  Everything the program reads from disk or from the network is the result of
  \<^verbatim>\<open>json.load\<close>: a Python value built from \<^verbatim>\<open>None\<close>, booleans, numbers, strings,
  lists and dicts with string keys. A dict is kept as an association list in insertion
  order, looked up with \<open>map_of\<close>. Python's \<^verbatim>\<open>None\<close> is \<open>JNull\<close>, so an attribute such as
  \<^verbatim>\<open>self.access_token\<close>, which holds either \<^verbatim>\<open>None\<close> or a loaded value, is a \<open>json\<close> too.
  Numbers are integers here; no operation of the program looks inside a number.
\<close>

datatype json =
    JNull
  | JBool bool
  | JNum int
  | JStr string
  | JArr "json list"
  | JObj "(string \<times> json) list"

text \<open>
  The exceptions the modelled code can raise. The first five are the
  \<^verbatim>\<open>Exception(...)\<close> values the client raises itself (told apart by their message);
  the others are Python's own. \<open>ReadError\<close> stands for what reading a file that is
  there can raise: an \<^verbatim>\<open>OSError\<close> other than \<^verbatim>\<open>FileNotFoundError\<close>, or a
  \<^verbatim>\<open>UnicodeDecodeError\<close>.
\<close>

datatype error =
    CredentialsNotFound
  | CredentialsParseFailed
  | NoRefreshToken
  | RefreshFailed
  | ApiRequestFailed
  | KeyError
  | TypeError
  | AttributeError
  | ValueError
  | ReadError

definition ebind :: "error + 'a \<Rightarrow> ('a \<Rightarrow> error + 'b) \<Rightarrow> error + 'b" where
  "ebind m f = (case m of Inl e \<Rightarrow> Inl e | Inr x \<Rightarrow> f x)"

text \<open>Truth value of a Python object (\<^verbatim>\<open>if not x\<close>).\<close>

fun truthy :: "json \<Rightarrow> bool" where
  "truthy JNull = False"
| "truthy (JBool b) = b"
| "truthy (JNum n) = (n \<noteq> 0)"
| "truthy (JStr s) = (s \<noteq> [])"
| "truthy (JArr xs) = (xs \<noteq> [])"
| "truthy (JObj kvs) = (kvs \<noteq> [])"

fun starts_with :: "string \<Rightarrow> string \<Rightarrow> bool" where
  "starts_with [] s = True"
| "starts_with (c # t) [] = False"
| "starts_with (c # t) (d # s) = (c = d \<and> starts_with t s)"

text \<open>\<^verbatim>\<open>t in s\<close> on two strings: \<open>t\<close> occurs in \<open>s\<close> as a substring.\<close>

fun contains :: "string \<Rightarrow> string \<Rightarrow> bool" where
  "contains t [] = (t = [])"
| "contains t (c # s) = (starts_with t (c # s) \<or> contains t s)"

text \<open>
  \<^verbatim>\<open>x in c\<close>. A list is searched by equality, a dict for a key, a string for a
  substring; \<^verbatim>\<open>None\<close>, booleans and numbers are not containers. A list or a dict
  cannot be hashed, so looking one up in a dict raises, and only a string can be
  searched for in a string. Equality of values is structural equality, which is
  Python's \<^verbatim>\<open>==\<close> on strings, the only values the program's data model stores as ids.
\<close>

fun py_in :: "json \<Rightarrow> json \<Rightarrow> error + bool" where
  "py_in x (JArr xs) = Inr (x \<in> set xs)"
| "py_in (JStr k) (JObj kvs) = Inr (k \<in> set (map fst kvs))"
| "py_in (JArr v) (JObj kvs) = Inl TypeError"
| "py_in (JObj v) (JObj kvs) = Inl TypeError"
| "py_in x (JObj kvs) = Inr False"
| "py_in (JStr t) (JStr s) = Inr (contains t s)"
| "py_in x c = Inl TypeError"

text \<open>\<^verbatim>\<open>c[k]\<close> for a string key \<open>k\<close>: only a dict can be subscripted by a string.\<close>

fun py_getitem :: "json \<Rightarrow> string \<Rightarrow> error + json" where
  "py_getitem (JObj kvs) k = (case map_of kvs k of None \<Rightarrow> Inl KeyError | Some v \<Rightarrow> Inr v)"
| "py_getitem c k = Inl TypeError"

text \<open>\<^verbatim>\<open>c.get(k, d)\<close>: only a dict has the method.\<close>

fun py_get :: "json \<Rightarrow> string \<Rightarrow> json \<Rightarrow> error + json" where
  "py_get (JObj kvs) k d = Inr (case map_of kvs k of None \<Rightarrow> d | Some v \<Rightarrow> v)"
| "py_get c k d = Inl AttributeError"

text \<open>Assignment to a dict entry keeps the position of a key already there and
  appends a new key.\<close>

fun dict_set :: "(string \<times> json) list \<Rightarrow> string \<Rightarrow> json \<Rightarrow> (string \<times> json) list" where
  "dict_set [] k v = [(k, v)]"
| "dict_set (p # ps) k v = (if fst p = k then (k, v) # ps else p # dict_set ps k v)"

text \<open>\<^verbatim>\<open>c[k] = v\<close> for a string key \<open>k\<close>.\<close>

fun py_setitem :: "json \<Rightarrow> string \<Rightarrow> json \<Rightarrow> error + json" where
  "py_setitem (JObj kvs) k v = Inr (JObj (dict_set kvs k v))"
| "py_setitem c k v = Inl TypeError"

section \<open>Library functions and files\<close>

text \<open>
  The functions of Python's standard library that the program calls and that are not
  part of it are parameters of the model: \<^verbatim>\<open>json.loads\<close> and \<^verbatim>\<open>json.dumps\<close> on strings,
  \<^verbatim>\<open>datetime.fromisoformat\<close>, \<^verbatim>\<open>datetime.strptime(_, "%Y%m%d")\<close>,
  \<^verbatim>\<open>strftime('%Y-%m-%d')\<close> and \<^verbatim>\<open>str\<close>. A parser returns \<open>None\<close> where Python raises.
\<close>

text \<open>
  A \<^verbatim>\<open>datetime\<close>: its wall-clock fields as one count of microseconds, and its offset
  from UTC in microseconds, \<open>None\<close> for a naive value.
\<close>

record pydatetime =
  wall :: int
  utcoffset :: "int option"

record pylib =
  json_loads :: "string \<Rightarrow> json option"
  json_dumps :: "json \<Rightarrow> string"
  fromisoformat :: "string \<Rightarrow> pydatetime option"
  strptime_ymd :: "string \<Rightarrow> int option"
  strftime_ymd :: "int \<Rightarrow> string"
  py_str :: "json \<Rightarrow> string"

text \<open>A file that is read as JSON: absent, present but not readable as text (no
  permission, or bytes that do not decode), text that is not JSON, or a JSON document.\<close>

datatype file_content = FileMissing | FileUnreadable | FileNotJson | FileJson json

section \<open>The client: credentials\<close>

text \<open>
  One record holds the state of the process and of what it touches: the three
  attributes of \<^verbatim>\<open>GranolaClient\<close>, the \<^verbatim>\<open>state\<close> attribute of
  \<^verbatim>\<open>MeetingAnalysisRunner\<close> (\<open>ledger\<close>), the credential file and the ledger file with
  whether they can be opened for writing, the HTTP requests sent so far and the
  warnings printed so far.
\<close>

datatype request =
    ApiPost string json json
  | AuthPost json

datatype message =
    WarnSaveToken
  | WarnTranscript json error
  | WarnSaveState
  | WarnFeedback

record state =
  access_token :: json
  refresh_token :: json
  client_id :: json
  ledger :: json
  cred_file :: file_content
  cred_writable :: bool
  state_file :: file_content
  state_writable :: bool
  state_writes :: nat
  sent :: "request list"
  printed :: "message list"

definition DEFAULT_CLIENT_ID :: json where
  "DEFAULT_CLIENT_ID = JStr ''client_01JARHTH2HQ6D64XDAEVXFNQ44''"

text \<open>\<^verbatim>\<open>json.loads(v)\<close>: a value that is not a string is a \<^verbatim>\<open>TypeError\<close>; the result
  \<open>Inr None\<close> is the \<^verbatim>\<open>JSONDecodeError\<close> of a string that is not JSON.\<close>

definition py_json_loads :: "pylib \<Rightarrow> json \<Rightarrow> error + json option" where
  "py_json_loads lib v = (case v of JStr s \<Rightarrow> Inr (json_loads lib s) | _ \<Rightarrow> Inl TypeError)"

text \<open>
  \<^verbatim>\<open>GranolaClient._load_credentials\<close>, called by \<^verbatim>\<open>__init__\<close> on tokens that are
  \<^verbatim>\<open>None\<close>. The result is the triple of attributes
  \<open>(access_token, refresh_token, client_id)\<close>. Only \<^verbatim>\<open>FileNotFoundError\<close> and
  \<^verbatim>\<open>JSONDecodeError\<close> are caught and re-raised; any other exception leaves as it is,
  also that of a file that is there and cannot be read.
\<close>

definition load_tokens :: "pylib \<Rightarrow> json \<Rightarrow> error + json \<times> json" where
  "load_tokens lib creds =
     ebind (py_in (JStr ''workos_tokens'') creds) (\<lambda>b1.
       if b1 then
         ebind (py_getitem creds ''workos_tokens'') (\<lambda>v.
         ebind (py_json_loads lib v) (\<lambda>r.
           case r of
             None \<Rightarrow> Inl CredentialsParseFailed
           | Some workos_tokens \<Rightarrow>
               ebind (py_get workos_tokens ''access_token'' JNull) (\<lambda>a.
               ebind (py_get workos_tokens ''refresh_token'' JNull) (\<lambda>r.
                 Inr (a, r)))))
       else
         ebind (py_in (JStr ''currentSession'') creds) (\<lambda>b2.
           if b2 then
             ebind (py_getitem creds ''currentSession'') (\<lambda>session.
             ebind (py_get session ''access_token'' JNull) (\<lambda>a.
             ebind (py_get session ''refresh_token'' JNull) (\<lambda>r.
               Inr (a, r))))
           else
             ebind (py_in (JStr ''access_token'') creds) (\<lambda>b3.
               if b3 then
                 ebind (py_get creds ''access_token'' JNull) (\<lambda>a.
                 ebind (py_get creds ''refresh_token'' JNull) (\<lambda>r.
                   Inr (a, r)))
               else Inr (JNull, JNull))))"

definition load_credentials :: "pylib \<Rightarrow> file_content \<Rightarrow> error + json \<times> json \<times> json" where
  "load_credentials lib f =
     (case f of
        FileMissing \<Rightarrow> Inl CredentialsNotFound
      | FileUnreadable \<Rightarrow> Inl ReadError
      | FileNotJson \<Rightarrow> Inl CredentialsParseFailed
      | FileJson creds \<Rightarrow>
          ebind (load_tokens lib creds) (\<lambda>(a, r).
          ebind (py_get creds ''client_id'' DEFAULT_CLIENT_ID) (\<lambda>c.
            Inr (a, r, c))))"

section \<open>The client: requests\<close>

text \<open>
  \<^verbatim>\<open>requests.post\<close> either raises a \<^verbatim>\<open>RequestException\<close> (no response) or returns a
  response with a status code and a body; \<open>None\<close> is a body that
  \<^verbatim>\<open>response.json()\<close> cannot decode, which raises \<^verbatim>\<open>requests.exceptions.JSONDecodeError\<close>,
  a \<^verbatim>\<open>RequestException\<close> too. The remote side is any function of the requests made
  so far and the request at hand. A request to the API is its endpoint, the access
  token its \<^verbatim>\<open>Authorization\<close> header is built from and its payload; a request to
  \<^verbatim>\<open>WORKOS_AUTH_URL\<close> is its payload.
\<close>

datatype http_result = ConnectionError | Response nat "json option"

type_synonym server = "request list \<Rightarrow> request \<Rightarrow> http_result"

definition post :: "server \<Rightarrow> request \<Rightarrow> state \<Rightarrow> http_result \<times> state" where
  "post srv req s = (srv (sent s) req, s\<lparr>sent := sent s @ [req]\<rparr>)"

text \<open>\<^verbatim>\<open>response.raise_for_status()\<close> raises for the statuses 400 to 599.\<close>

definition is_http_error :: "nat \<Rightarrow> bool" where
  "is_http_error status = (400 \<le> status \<and> status < 600)"

text \<open>The new content of the credential file in \<^verbatim>\<open>_save_refresh_token\<close>, in the
  shape the file has.\<close>

definition updated_creds :: "pylib \<Rightarrow> json \<Rightarrow> json \<Rightarrow> json \<Rightarrow> error + json" where
  "updated_creds lib a r creds =
     ebind (py_in (JStr ''workos_tokens'') creds) (\<lambda>b1.
       if b1 then
         ebind (py_getitem creds ''workos_tokens'') (\<lambda>v.
         ebind (py_json_loads lib v) (\<lambda>p.
           case p of
             None \<Rightarrow> Inl ValueError
           | Some workos_tokens \<Rightarrow>
               ebind (py_setitem workos_tokens ''access_token'' a) (\<lambda>w1.
               ebind (py_setitem w1 ''refresh_token'' r) (\<lambda>w2.
                 py_setitem creds ''workos_tokens'' (JStr (json_dumps lib w2))))))
       else
         ebind (py_in (JStr ''currentSession'') creds) (\<lambda>b2.
           if b2 then
             ebind (py_getitem creds ''currentSession'') (\<lambda>session.
             ebind (py_setitem session ''access_token'' a) (\<lambda>s1.
             ebind (py_setitem s1 ''refresh_token'' r) (\<lambda>s2.
               py_setitem creds ''currentSession'' s2)))
           else
             ebind (py_setitem creds ''access_token'' a) (\<lambda>c1.
               py_setitem c1 ''refresh_token'' r)))"

text \<open>\<^verbatim>\<open>GranolaClient._save_refresh_token\<close>: every exception ends in a printed warning.\<close>

definition save_refresh_token :: "pylib \<Rightarrow> state \<Rightarrow> state" where
  "save_refresh_token lib s =
     (case cred_file s of
        FileJson creds \<Rightarrow>
          (case updated_creds lib (access_token s) (refresh_token s) creds of
             Inl e \<Rightarrow> s\<lparr>printed := printed s @ [WarnSaveToken]\<rparr>
           | Inr creds' \<Rightarrow>
               if cred_writable s then s\<lparr>cred_file := FileJson creds'\<rparr>
               else s\<lparr>printed := printed s @ [WarnSaveToken]\<rparr>)
      | _ \<Rightarrow> s\<lparr>printed := printed s @ [WarnSaveToken]\<rparr>)"

text \<open>\<^verbatim>\<open>GranolaClient._refresh_access_token\<close>. Only a \<^verbatim>\<open>RequestException\<close> is caught
  (and re-raised as the refresh failure); a \<^verbatim>\<open>KeyError\<close> or \<^verbatim>\<open>TypeError\<close> of the
  subscripts leaves as it is, after the first assignment when the second one raises.\<close>

definition refresh_payload :: "state \<Rightarrow> json" where
  "refresh_payload s =
     JObj [(''client_id'', client_id s),
           (''grant_type'', JStr ''refresh_token''),
           (''refresh_token'', refresh_token s)]"

definition refresh_access_token :: "pylib \<Rightarrow> server \<Rightarrow> state \<Rightarrow> (error + unit) \<times> state" where
  "refresh_access_token lib srv s =
     (if \<not> truthy (refresh_token s) then (Inl NoRefreshToken, s)
      else
        let payload = refresh_payload s
        in case post srv (AuthPost payload) s of
             (ConnectionError, s1) \<Rightarrow> (Inl RefreshFailed, s1)
           | (Response status body, s1) \<Rightarrow>
               if is_http_error status then (Inl RefreshFailed, s1)
               else (case body of
                       None \<Rightarrow> (Inl RefreshFailed, s1)
                     | Some data \<Rightarrow>
                         (case py_getitem data ''access_token'' of
                            Inl e \<Rightarrow> (Inl e, s1)
                          | Inr a \<Rightarrow>
                              (case py_getitem data ''refresh_token'' of
                                 Inl e \<Rightarrow> (Inl e, s1\<lparr>access_token := a\<rparr>)
                               | Inr r \<Rightarrow>
                                   (Inr (), save_refresh_token lib
                                      (s1\<lparr>access_token := a, refresh_token := r\<rparr>))))))"

text \<open>\<^verbatim>\<open>GranolaClient._make_request\<close>, recursive on \<^verbatim>\<open>retry_auth\<close> as the source is.
  The exceptions of the refresh and of the inner call are not
  \<^verbatim>\<open>RequestException\<close>s, so they pass through the handler unchanged.\<close>

function make_request ::
  "pylib \<Rightarrow> server \<Rightarrow> string \<Rightarrow> json \<Rightarrow> bool \<Rightarrow> state \<Rightarrow> (error + json) \<times> state" where
  "make_request lib srv endpoint payload retry_auth s =
     (case post srv (ApiPost endpoint (access_token s) payload) s of
        (ConnectionError, s1) \<Rightarrow> (Inl ApiRequestFailed, s1)
      | (Response status body, s1) \<Rightarrow>
          if status = 401 \<and> retry_auth then
            (case refresh_access_token lib srv s1 of
               (Inl e, s2) \<Rightarrow> (Inl e, s2)
             | (Inr u, s2) \<Rightarrow> make_request lib srv endpoint payload False s2)
          else if is_http_error status then (Inl ApiRequestFailed, s1)
          else (case body of
                  None \<Rightarrow> (Inl ApiRequestFailed, s1)
                | Some j \<Rightarrow> (Inr j, s1)))"
  by pat_completeness auto
termination
  by (relation "measure (\<lambda>(lib, srv, endpoint, payload, retry_auth, s). if retry_auth then 1 else 0)")
     auto

definition listing_payload :: "int \<Rightarrow> int \<Rightarrow> json" where
  "listing_payload limit offset =
     JObj [(''limit'', JNum limit), (''offset'', JNum offset),
           (''include_last_viewed_panel'', JBool True)]"

definition get_documents ::
  "pylib \<Rightarrow> server \<Rightarrow> int \<Rightarrow> int \<Rightarrow> state \<Rightarrow> (error + json) \<times> state" where
  "get_documents lib srv limit offset s =
     (let payload = listing_payload limit offset
      in case make_request lib srv ''/v2/get-documents'' payload True s of
           (Inl e, s1) \<Rightarrow> (Inl e, s1)
         | (Inr response, s1) \<Rightarrow> (py_get response ''docs'' (JArr []), s1))"

definition get_document_transcript ::
  "pylib \<Rightarrow> server \<Rightarrow> json \<Rightarrow> state \<Rightarrow> (error + json list) \<times> state" where
  "get_document_transcript lib srv document_id s =
     (let payload = JObj [(''document_id'', document_id)]
      in case make_request lib srv ''/v1/get-document-transcript'' payload True s of
           (Inl e, s1) \<Rightarrow> (Inl e, s1)
         | (Inr response, s1) \<Rightarrow>
             (Inr (case response of JArr xs \<Rightarrow> xs | _ \<Rightarrow> []), s1))"

section \<open>The client: meetings in a date range\<close>

text \<open>
  Ordering two \<^verbatim>\<open>datetime\<close> values: two aware values compare as instants, two naive
  values by their fields, and an aware with a naive value raises \<^verbatim>\<open>TypeError\<close>.
\<close>

definition dt_le :: "pydatetime \<Rightarrow> pydatetime \<Rightarrow> error + bool" where
  "dt_le a b =
     (case (utcoffset a, utcoffset b) of
        (None, None) \<Rightarrow> Inr (wall a \<le> wall b)
      | (Some x, Some y) \<Rightarrow> Inr (wall a - x \<le> wall b - y)
      | _ \<Rightarrow> Inl TypeError)"

text \<open>\<^verbatim>\<open>d.replace(tzinfo=timezone.utc)\<close> when \<^verbatim>\<open>d.tzinfo is None\<close>.\<close>

definition make_aware :: "pydatetime \<Rightarrow> pydatetime" where
  "make_aware d = (case utcoffset d of None \<Rightarrow> d\<lparr>utcoffset := Some 0\<rparr> | Some x \<Rightarrow> d)"

text \<open>\<^verbatim>\<open>s.replace('Z', '+00:00')\<close>.\<close>

definition replace_Z :: "string \<Rightarrow> string" where
  "replace_Z s = concat (map (\<lambda>c. if c = CHR ''Z'' then ''+00:00'' else [c]) s)"

text \<open>\<^verbatim>\<open>datetime.fromisoformat(doc['created_at'].replace('Z', '+00:00'))\<close>: only a
  string has the method \<^verbatim>\<open>replace\<close>.\<close>

definition parse_created_at :: "pylib \<Rightarrow> json \<Rightarrow> error + pydatetime" where
  "parse_created_at lib doc =
     ebind (py_getitem doc ''created_at'') (\<lambda>c.
       case c of
         JStr str \<Rightarrow>
           (case fromisoformat lib (replace_Z str) of
              None \<Rightarrow> Inl ValueError
            | Some d \<Rightarrow> Inr d)
       | _ \<Rightarrow> Inl AttributeError)"

text \<open>\<^verbatim>\<open>start_date <= created_at <= end_date\<close>: the second comparison is made only when
  the first one holds.\<close>

definition in_range :: "pydatetime \<Rightarrow> pydatetime \<Rightarrow> pydatetime \<Rightarrow> error + bool" where
  "in_range start_date end_date created_at =
     ebind (dt_le start_date created_at) (\<lambda>b.
       if b then dt_le created_at end_date else Inr False)"

definition doc_title :: "json \<Rightarrow> json" where
  "doc_title doc = (case py_get doc ''title'' (JStr ''Unknown'') of Inr t \<Rightarrow> t | Inl e \<Rightarrow> JStr ''Unknown'')"

text \<open>The \<^verbatim>\<open>try\<close> block of the loop body: \<^verbatim>\<open>doc['id']\<close>, the transcript request and
  the two statements after it; any exception is printed and the document left out.\<close>

definition attach_transcript ::
  "pylib \<Rightarrow> server \<Rightarrow> json \<Rightarrow> json list \<Rightarrow> state \<Rightarrow> json list \<times> state" where
  "attach_transcript lib srv doc all_meetings s =
     (case py_getitem doc ''id'' of
        Inl e \<Rightarrow> (all_meetings, s\<lparr>printed := printed s @ [WarnTranscript (doc_title doc) e]\<rparr>)
      | Inr i \<Rightarrow>
          (case get_document_transcript lib srv i s of
             (Inl e, s1) \<Rightarrow>
               (all_meetings, s1\<lparr>printed := printed s1 @ [WarnTranscript (doc_title doc) e]\<rparr>)
           | (Inr transcript, s1) \<Rightarrow>
               (case py_setitem doc ''transcript'' (JArr transcript) of
                  Inl e \<Rightarrow>
                    (all_meetings,
                     s1\<lparr>printed := printed s1 @ [WarnTranscript (doc_title doc) e]\<rparr>)
                | Inr doc' \<Rightarrow> (all_meetings @ [doc'], s1))))"

text \<open>The body of \<^verbatim>\<open>for doc in documents\<close>. Parsing and comparing the date stand
  outside the \<^verbatim>\<open>try\<close>, so their exceptions end the whole call.\<close>

definition process_doc ::
  "pylib \<Rightarrow> server \<Rightarrow> pydatetime \<Rightarrow> pydatetime \<Rightarrow> json \<Rightarrow> json list \<Rightarrow> state
     \<Rightarrow> (error + json list) \<times> state" where
  "process_doc lib srv start_date end_date doc all_meetings s =
     (case parse_created_at lib doc of
        Inl e \<Rightarrow> (Inl e, s)
      | Inr created_at \<Rightarrow>
          (case in_range start_date end_date created_at of
             Inl e \<Rightarrow> (Inl e, s)
           | Inr False \<Rightarrow> (Inr all_meetings, s)
           | Inr True \<Rightarrow>
               (case attach_transcript lib srv doc all_meetings s of
                  (all', s1) \<Rightarrow> (Inr all', s1))))"

fun for_docs ::
  "pylib \<Rightarrow> server \<Rightarrow> pydatetime \<Rightarrow> pydatetime \<Rightarrow> json list \<Rightarrow> json list \<Rightarrow> state
     \<Rightarrow> (error + json list) \<times> state" where
  "for_docs lib srv start_date end_date [] all_meetings s = (Inr all_meetings, s)"
| "for_docs lib srv start_date end_date (doc # docs) all_meetings s =
     (case process_doc lib srv start_date end_date doc all_meetings s of
        (Inl e, s1) \<Rightarrow> (Inl e, s1)
      | (Inr all', s1) \<Rightarrow> for_docs lib srv start_date end_date docs all' s1)"

text \<open>
  The \<^verbatim>\<open>while True\<close> loop, with \<^verbatim>\<open>limit = 100\<close>. The source has no bound on the
  number of rounds, so the loop is a partial function: \<open>None\<close> is a call that never
  returns. The value of \<^verbatim>\<open>docs\<close> is whatever the response holds: a falsy value ends
  the loop, and a truthy one that is not a list raises \<^verbatim>\<open>TypeError\<close> in the
  \<^verbatim>\<open>for\<close> statement or at the first \<^verbatim>\<open>doc['created_at']\<close>.
\<close>

partial_function (option) scan_pages ::
  "pylib \<Rightarrow> server \<Rightarrow> pydatetime \<Rightarrow> pydatetime \<Rightarrow> int \<Rightarrow> json list \<Rightarrow> state
     \<Rightarrow> ((error + json list) \<times> state) option" where
  "scan_pages lib srv start_date end_date offset all_meetings s =
     (case get_documents lib srv 100 offset s of
        (Inl e, s1) \<Rightarrow> Some (Inl e, s1)
      | (Inr documents, s1) \<Rightarrow>
          if \<not> truthy documents then Some (Inr all_meetings, s1)
          else (case documents of
                  JArr docs \<Rightarrow>
                    (case for_docs lib srv start_date end_date docs all_meetings s1 of
                       (Inl e, s2) \<Rightarrow> Some (Inl e, s2)
                     | (Inr all', s2) \<Rightarrow>
                         if int (length docs) < 100 then Some (Inr all', s2)
                         else scan_pages lib srv start_date end_date (offset + 100) all' s2)
                | _ \<Rightarrow> Some (Inl TypeError, s1)))"

definition get_meetings_in_date_range ::
  "pylib \<Rightarrow> server \<Rightarrow> pydatetime \<Rightarrow> pydatetime \<Rightarrow> state
     \<Rightarrow> ((error + json list) \<times> state) option" where
  "get_meetings_in_date_range lib srv start_date end_date s =
     scan_pages lib srv (make_aware start_date) (make_aware end_date) 0 [] s"

section \<open>The client: transcript text\<close>

definition fmt :: "pylib \<Rightarrow> json \<Rightarrow> string" where
  "fmt lib v = (case v of JStr s \<Rightarrow> s | _ \<Rightarrow> py_str lib v)"

text \<open>\<^verbatim>\<open>sep.join(xs)\<close>.\<close>

fun join :: "string \<Rightarrow> string list \<Rightarrow> string" where
  "join sep [] = []"
| "join sep [x] = x"
| "join sep (x # y # ys) = x @ sep @ join sep (y # ys)"

text \<open>The loop of \<^verbatim>\<open>format_transcript_text\<close> over the utterances, appending to
  \<^verbatim>\<open>lines\<close>. An utterance that is not a dict has no \<^verbatim>\<open>get\<close>.\<close>

fun transcript_lines :: "pylib \<Rightarrow> json list \<Rightarrow> string list \<Rightarrow> error + string list" where
  "transcript_lines lib [] lines = Inr lines"
| "transcript_lines lib (utterance # rest) lines =
     ebind (py_get utterance ''source'' (JStr ''Unknown'')) (\<lambda>speaker.
     ebind (py_get utterance ''text'' (JStr [])) (\<lambda>text.
       transcript_lines lib rest (lines @ [fmt lib speaker @ '': '' @ fmt lib text])))"

definition format_transcript_text :: "pylib \<Rightarrow> json list \<Rightarrow> error + string" where
  "format_transcript_text lib transcript =
     (if transcript = [] then Inr []
      else ebind (transcript_lines lib transcript []) (\<lambda>lines. Inr (join [CHR 0x0A] lines)))"

section \<open>The runner: the ledger of processed documents\<close>

text \<open>\<^verbatim>\<open>MeetingAnalysisRunner._save_state\<close>: the whole ledger replaces the content of
  the ledger file; a failure to write is a printed warning. \<open>state_writes\<close> counts the
  writes made.\<close>

definition save_state :: "state \<Rightarrow> state" where
  "save_state s =
     (if state_writable s
      then s\<lparr>state_file := FileJson (ledger s), state_writes := Suc (state_writes s)\<rparr>
      else s\<lparr>printed := printed s @ [WarnSaveState]\<rparr>)"

text \<open>\<^verbatim>\<open>MeetingAnalysisRunner._mark_as_processed\<close>. The call of \<^verbatim>\<open>_save_state\<close>
  stands inside the \<^verbatim>\<open>if\<close>. Only a list has the method \<^verbatim>\<open>append\<close>.\<close>

definition mark_as_processed :: "json \<Rightarrow> state \<Rightarrow> (error + unit) \<times> state" where
  "mark_as_processed document_id s =
     (case py_getitem (ledger s) ''processed_documents'' of
        Inl e \<Rightarrow> (Inl e, s)
      | Inr pd \<Rightarrow>
          (case py_in document_id pd of
             Inl e \<Rightarrow> (Inl e, s)
           | Inr True \<Rightarrow> (Inr (), s)
           | Inr False \<Rightarrow>
               (case pd of
                  JArr ids \<Rightarrow>
                    (case py_setitem (ledger s) ''processed_documents''
                            (JArr (ids @ [document_id])) of
                       Inl e \<Rightarrow> (Inl e, s)
                     | Inr l \<Rightarrow> (Inr (), save_state (s\<lparr>ledger := l\<rparr>)))
                | _ \<Rightarrow> (Inl AttributeError, s))))"

text \<open>\<^verbatim>\<open>MeetingAnalysisRunner._is_processed\<close>.\<close>

definition is_processed :: "json \<Rightarrow> state \<Rightarrow> error + bool" where
  "is_processed document_id s =
     ebind (py_get (ledger s) ''processed_documents'' (JArr [])) (\<lambda>pd. py_in document_id pd)"

text \<open>The list comprehension
  \<^verbatim>\<open>[m for m in meetings if not self._is_processed(m['id'])]\<close>, element by element.\<close>

fun filter_new :: "json list \<Rightarrow> state \<Rightarrow> error + json list" where
  "filter_new [] s = Inr []"
| "filter_new (m # ms) s =
     ebind (py_getitem m ''id'') (\<lambda>i.
     ebind (is_processed i s) (\<lambda>b.
     ebind (filter_new ms s) (\<lambda>rest.
       Inr (if b then rest else m # rest))))"

text \<open>\<^verbatim>\<open>MeetingAnalysisRunner.fetch_meetings\<close>; its result is the list handed on to
  the analysis.\<close>

definition fetch_meetings ::
  "pylib \<Rightarrow> server \<Rightarrow> pydatetime \<Rightarrow> pydatetime \<Rightarrow> bool \<Rightarrow> state
     \<Rightarrow> ((error + json list) \<times> state) option" where
  "fetch_meetings lib srv start_date end_date new_only s =
     (case get_meetings_in_date_range lib srv start_date end_date s of
        None \<Rightarrow> None
      | Some (Inl e, s1) \<Rightarrow> Some (Inl e, s1)
      | Some (Inr meetings, s1) \<Rightarrow>
          if new_only then
            (case filter_new meetings s1 of
               Inl e \<Rightarrow> Some (Inl e, s1)
             | Inr meetings' \<Rightarrow> Some (Inr meetings', s1))
          else Some (Inr meetings, s1))"

section \<open>The runner: previous feedback\<close>

text \<open>
  The feedback directory is the list of its files, each a name and a content, \<open>None\<close>
  for a file that cannot be read; a directory that does not exist is the empty list.
  \<^verbatim>\<open>datetime.now()\<close> is a count of microseconds, and \<^verbatim>\<open>strptime(_, "%Y%m%d")\<close> gives
  the number of the day parsed, whose \<^verbatim>\<open>datetime\<close> is the midnight that starts it.
\<close>

type_synonym directory = "(string \<times> string option) list"

definition DAY :: int where
  "DAY = 86400000000"

fun ends_with :: "string \<Rightarrow> string \<Rightarrow> bool" where
  "ends_with t s = starts_with (rev t) (rev s)"

text \<open>A name matched by \<^verbatim>\<open>glob("feedback_*.txt")\<close>.\<close>

definition glob_feedback :: "string \<Rightarrow> bool" where
  "glob_feedback name =
     (starts_with ''feedback_'' name \<and> ends_with ''.txt'' name \<and> 13 \<le> length name)"

text \<open>\<^verbatim>\<open>s.split(c)\<close>.\<close>

fun split_on :: "char \<Rightarrow> string \<Rightarrow> string list" where
  "split_on c [] = [[]]"
| "split_on c (d # s) =
     (case split_on c s of
        [] \<Rightarrow> [[d]]
      | p # ps \<Rightarrow> if d = c then [] # p # ps else (d # p) # ps)"

text \<open>\<^verbatim>\<open>f.stem\<close> of a name that ends in \<^verbatim>\<open>.txt\<close>.\<close>

definition stem :: "string \<Rightarrow> string" where
  "stem name = take (length name - 4) name"

text \<open>The inner \<^verbatim>\<open>try\<close> of the loop over the matched files: the day of the file when
  it parses, with \<^verbatim>\<open>days_ago = (datetime.now() - file_date).days\<close>; a bare
  \<^verbatim>\<open>except\<close> skips the file otherwise.\<close>

definition days_ago :: "int \<Rightarrow> int \<Rightarrow> int" where
  "days_ago now file_day = (now - file_day * DAY) div DAY"

definition file_date :: "pylib \<Rightarrow> string \<Rightarrow> int option" where
  "file_date lib name =
     (case split_on CHR ''_'' (stem name) of
        p # date_str # ps \<Rightarrow> strptime_ymd lib date_str
      | _ \<Rightarrow> None)"

fun feedback_files :: "pylib \<Rightarrow> int \<Rightarrow> directory \<Rightarrow> (int \<times> string) list" where
  "feedback_files lib now [] = []"
| "feedback_files lib now ((name, content) # fs) =
     (if glob_feedback name then
        (case file_date lib name of
           None \<Rightarrow> feedback_files lib now fs
         | Some d \<Rightarrow>
             if 1 \<le> days_ago now d \<and> days_ago now d \<le> 7
             then (d, name) # feedback_files lib now fs
             else feedback_files lib now fs)
      else feedback_files lib now fs)"

text \<open>\<^verbatim>\<open>feedback_files.sort(reverse=True)\<close> followed by \<^verbatim>\<open>feedback_files[:3]\<close>: the
  pairs are ordered by day, then by path.\<close>

definition recent_feedback :: "pylib \<Rightarrow> int \<Rightarrow> directory \<Rightarrow> (int \<times> string) list" where
  "recent_feedback lib now dir = take 3 (rev (sort (feedback_files lib now dir)))"

text \<open>\<^verbatim>\<open>open(file).read()\<close>: \<open>None\<close> when it raises.\<close>

definition read_file :: "directory \<Rightarrow> string \<Rightarrow> string option" where
  "read_file dir name = (case map_of dir name of None \<Rightarrow> None | Some content \<Rightarrow> content)"

text \<open>The list comprehension over the files chosen, element by element: the first
  file that cannot be read raises, and the others are not read.\<close>

fun feedback_entries :: "pylib \<Rightarrow> directory \<Rightarrow> (int \<times> string) list \<Rightarrow> string list option" where
  "feedback_entries lib dir [] = Some []"
| "feedback_entries lib dir (e # es) =
     (case read_file dir (snd e) of
        None \<Rightarrow> None
      | Some content \<Rightarrow>
          (case feedback_entries lib dir es of
             None \<Rightarrow> None
           | Some rest \<Rightarrow>
               Some ((''['' @ strftime_ymd lib (fst e) @ '']'' @ [CHR 0x0A] @ content) # rest)))"

text \<open>\<^verbatim>\<open>MeetingAnalysisRunner._load_previous_feedback\<close>. The outer handler turns the
  exception of a file that cannot be read into a printed warning and the result
  \<^verbatim>\<open>None\<close>.\<close>

definition load_previous_feedback ::
  "pylib \<Rightarrow> int \<Rightarrow> directory \<Rightarrow> state \<Rightarrow> string option \<times> state" where
  "load_previous_feedback lib now dir s =
     (if feedback_files lib now dir = [] then (None, s)
      else
        (case feedback_entries lib dir (recent_feedback lib now dir) of
           None \<Rightarrow> (None, s\<lparr>printed := printed s @ [WarnFeedback]\<rparr>)
         | Some entries \<Rightarrow>
             let combined = join [CHR 0x0A, CHR 0x0A] entries
             in (if combined = [] then None else Some combined, s)))"

section \<open>A concrete library and concrete servers\<close>

text \<open>
  The theorems below hold for every library and every server. Where one is evaluated
  on an input, it is with this library, which knows a few strings (the encoded token
  object is written without its quotation marks), and with servers given as tables.
\<close>

definition lib0 :: pylib where
  "lib0 = \<lparr>
     json_loads = (\<lambda>s. if s = ''{access_token: a1, refresh_token: r1}''
                        then Some (JObj [(''access_token'', JStr ''a1''), (''refresh_token'', JStr ''r1'')])
                        else None),
     json_dumps = (\<lambda>j. ''{}''),
     fromisoformat = (\<lambda>s.
        if s = ''2024-01-15T10:00:00'' then Some \<lparr>wall = 1705312800000000, utcoffset = None\<rparr>
        else if s = ''2024-01-15T10:00:00+00:00''
        then Some \<lparr>wall = 1705312800000000, utcoffset = Some 0\<rparr>
        else None),
     strptime_ymd = (\<lambda>s.
        if s = ''20240110'' then Some 19732 else
        if s = ''20240111'' then Some 19733 else
        if s = ''20240112'' then Some 19734 else
        if s = ''20240113'' then Some 19735 else
        if s = ''20240114'' then Some 19736 else
        if s = ''20240115'' then Some 19737 else
        if s = ''20240107'' then Some 19729 else None),
     strftime_ymd = (\<lambda>d.
        if d = 19733 then ''2024-01-11'' else
        if d = 19734 then ''2024-01-12'' else
        if d = 19735 then ''2024-01-13'' else
        if d = 19736 then ''2024-01-14'' else ''?''),
     py_str = (\<lambda>j. ''?'')
   \<rparr>"

section \<open>The credential shapes, as the specification words them\<close>

text \<open>
  The specification reads the tokens from the first shape that matches, in this order:
  a field \<^verbatim>\<open>workos_tokens\<close> holding a JSON-encoded string, a nested object
  \<^verbatim>\<open>currentSession\<close>, top-level fields. \<open>tokens_dict\<close> is the object of the matched
  shape that holds the tokens, empty when no shape matches, and \<open>field_or_null\<close> reads
  a token from it, \<^verbatim>\<open>None\<close> when it is not there.
\<close>

definition tokens_dict :: "pylib \<Rightarrow> (string \<times> json) list \<Rightarrow> (string \<times> json) list" where
  "tokens_dict lib kvs =
     (case map_of kvs ''workos_tokens'' of
        Some v \<Rightarrow>
          (case v of
             JStr enc \<Rightarrow> (case json_loads lib enc of Some (JObj w) \<Rightarrow> w | _ \<Rightarrow> [])
           | _ \<Rightarrow> [])
      | None \<Rightarrow>
          (case map_of kvs ''currentSession'' of
             Some v \<Rightarrow> (case v of JObj session \<Rightarrow> session | _ \<Rightarrow> [])
           | None \<Rightarrow> (if map_of kvs ''access_token'' = None then [] else kvs)))"

definition field_or_null :: "(string \<times> json) list \<Rightarrow> string \<Rightarrow> json" where
  "field_or_null kvs k = (case map_of kvs k of None \<Rightarrow> JNull | Some v \<Rightarrow> v)"

section \<open>Transcript lines, as the specification words them\<close>

text \<open>
  One line per utterance, \<^verbatim>\<open><speaker>: <text>\<close>: the speaker is the field
  \<^verbatim>\<open>source\<close> and the text the field \<^verbatim>\<open>text\<close> of the utterance, with the defaults of
  the code for a field that is missing.
\<close>

fun is_dict :: "json \<Rightarrow> bool" where
  "is_dict (JObj kvs) = True"
| "is_dict j = False"

definition utterance_line :: "pylib \<Rightarrow> json \<Rightarrow> string" where
  "utterance_line lib u =
     (case u of
        JObj kvs \<Rightarrow>
          (case map_of kvs ''source'' of None \<Rightarrow> ''Unknown'' | Some v \<Rightarrow> fmt lib v)
          @ '': '' @
          (case map_of kvs ''text'' of None \<Rightarrow> [] | Some v \<Rightarrow> fmt lib v)
      | _ \<Rightarrow> [])"

section \<open>Concrete states and servers\<close>

text \<open>A client that has loaded both tokens from a file of the third shape, and a
  ledger of two documents that has not been written yet.\<close>

definition state0 :: state where
  "state0 = \<lparr>access_token = JStr ''old'', refresh_token = JStr ''r0'', client_id = DEFAULT_CLIENT_ID,
     ledger = JObj [(''processed_documents'', JArr [JStr ''doc1'', JStr ''doc2''])],
     cred_file = FileJson (JObj [(''access_token'', JStr ''old''), (''refresh_token'', JStr ''r0'')]),
     cred_writable = True, state_file = FileMissing, state_writable = True, state_writes = 0,
     sent = [], printed = []\<rparr>"

text \<open>A transcript endpoint that wraps the utterances in an object.\<close>

definition wrapped_server :: server where
  "wrapped_server h r = Response 200 (Some (JObj [(''utterances'', JArr [JObj [(''source'', JStr ''Alice''), (''text'', JStr ''Hello'')]])]))"

text \<open>The ledger after the three documents \<^verbatim>\<open>doc1\<close>, \<^verbatim>\<open>doc2\<close> and \<^verbatim>\<open>doc3\<close> have been
  marked, with a ledger file that this run has not written.\<close>

definition state3 :: state where
  "state3 = state0\<lparr>ledger := JObj [(''processed_documents'', JArr [JStr ''doc1'', JStr ''doc2'', JStr ''doc3''])]\<rparr>"

section \<open>The outcome of a response\<close>

text \<open>What \<^verbatim>\<open>_make_request\<close> makes of the response to a request that it does not
  retry: \<^verbatim>\<open>raise_for_status\<close> and \<^verbatim>\<open>response.json()\<close> inside the handler of
  \<^verbatim>\<open>RequestException\<close>.\<close>

definition respond :: "http_result \<Rightarrow> error + json" where
  "respond r =
     (case r of
        ConnectionError \<Rightarrow> Inl ApiRequestFailed
      | Response status body \<Rightarrow>
          if is_http_error status then Inl ApiRequestFailed
          else (case body of None \<Rightarrow> Inl ApiRequestFailed | Some j \<Rightarrow> Inr j))"

text \<open>An API that rejects every access token, with an authentication endpoint that
  rejects the refresh token.\<close>

definition expired_server :: server where
  "expired_server h r = (case r of AuthPost p \<Rightarrow> Response 400 None | ApiPost ep tok p \<Rightarrow> Response 401 None)"

text \<open>An API that accepts only the access token \<^verbatim>\<open>new\<close>, which the authentication
  endpoint hands out.\<close>

definition rotating_server :: server where
  "rotating_server h r =
     (case r of
        AuthPost p \<Rightarrow>
          Response 200 (Some (JObj [(''access_token'', JStr ''new''), (''refresh_token'', JStr ''r1'')]))
      | ApiPost ep tok p \<Rightarrow>
          if tok = JStr ''new'' then Response 200 (Some (JObj [(''docs'', JArr [])]))
          else Response 401 None)"

section \<open>The rounds of the pagination loop\<close>






text \<open>The bounds of 15 January 2024 in UTC, a listing of one document whose
  \<^verbatim>\<open>created_at\<close> has no offset, and a listing of two documents of that day where the
  transcript of the first one cannot be fetched.\<close>

definition jan15_start :: pydatetime where
  "jan15_start = \<lparr>wall = 1705276800000000, utcoffset = Some 0\<rparr>"

definition jan15_end :: pydatetime where
  "jan15_end = \<lparr>wall = 1705363199000000, utcoffset = Some 0\<rparr>"

definition naive_server :: server where
  "naive_server h r =
     Response 200 (Some (JObj [(''docs'', JArr
        [JObj [(''id'', JStr ''n1''), (''title'', JStr ''Standup''),
               (''created_at'', JStr ''2024-01-15T10:00:00'')]])]))"

definition flaky_server :: server where
  "flaky_server h r =
     (case r of
        AuthPost p \<Rightarrow> Response 400 None
      | ApiPost ep tok p \<Rightarrow>
          if ep = ''/v2/get-documents''
          then Response 200 (Some (JObj [(''docs'', JArr
                 [JObj [(''id'', JStr ''a''), (''title'', JStr ''First''),
                        (''created_at'', JStr ''2024-01-15T10:00:00Z'')],
                  JObj [(''id'', JStr ''b''), (''title'', JStr ''Second''),
                        (''created_at'', JStr ''2024-01-15T10:00:00Z'')]])]))
          else if p = JObj [(''document_id'', JStr ''a'')] then Response 500 None
          else Response 200 (Some (JArr [JObj [(''source'', JStr ''Alice''), (''text'', JStr ''Hello'')]])))"

text \<open>A listing of two documents of 15 January 2024, the first of which is in the
  ledger of \<open>state0\<close>, with empty transcripts.\<close>

definition ledger_server :: server where
  "ledger_server h r =
     (case r of
        AuthPost p \<Rightarrow> Response 400 None
      | ApiPost ep tok p \<Rightarrow>
          if ep = ''/v2/get-documents''
          then Response 200 (Some (JObj [(''docs'', JArr
                 [JObj [(''id'', JStr ''doc1''), (''created_at'', JStr ''2024-01-15T10:00:00Z'')],
                  JObj [(''id'', JStr ''doc9''), (''created_at'', JStr ''2024-01-15T10:00:00Z'')]])]))
          else Response 200 (Some (JArr [])))"

text \<open>Nine o'clock on 15 January 2024 (day 19737), a feedback directory with files of
  the four days before, and one that has files of eight days before and of the day
  itself as well.\<close>

definition now0 :: int where
  "now0 = 1705309200000000"

definition dir4 :: directory where
  "dir4 = [(''feedback_20240111.txt'', Some ''four''), (''feedback_20240114.txt'', Some ''one''),
           (''feedback_20240112.txt'', Some ''three''), (''feedback_20240113.txt'', Some ''two'')]"

definition dir7 :: directory where
  "dir7 = [(''feedback_20240107.txt'', Some ''eight''), (''feedback_20240111.txt'', Some ''four''),
           (''feedback_20240114.txt'', Some ''one''), (''feedback_20240115.txt'', Some ''today''),
           (''feedback_20240112.txt'', Some ''three''), (''current.txt'', Some ''today''),
           (''feedback_20240113.txt'', Some ''two'')]"

section \<open>When the credential shapes can be read\<close>

text \<open>
  The file's object can be read when the field \<^verbatim>\<open>workos_tokens\<close>, if it is there, is
  a string that decodes to an object, and otherwise the field \<^verbatim>\<open>currentSession\<close>, if
  it is there, is an object.
\<close>

definition shape_readable :: "pylib \<Rightarrow> (string \<times> json) list \<Rightarrow> bool" where
  "shape_readable lib kvs =
     (case map_of kvs ''workos_tokens'' of
        Some v \<Rightarrow>
          (case v of
             JStr enc \<Rightarrow> (case json_loads lib enc of Some (JObj w) \<Rightarrow> True | _ \<Rightarrow> False)
           | _ \<Rightarrow> False)
      | None \<Rightarrow>
          (case map_of kvs ''currentSession'' of
             Some v \<Rightarrow> (case v of JObj session \<Rightarrow> True | _ \<Rightarrow> False)
           | None \<Rightarrow> True))"


text \<open>The text of one feedback file in the result: its date in brackets, a newline
  and its content. A directory whose most recent file cannot be read.\<close>

definition entry_text :: "pylib \<Rightarrow> directory \<Rightarrow> int \<times> string \<Rightarrow> string" where
  "entry_text lib dir e =
     ''['' @ strftime_ymd lib (fst e) @ '']'' @ [CHR 0x0A] @
     (case read_file dir (snd e) of None \<Rightarrow> [] | Some content \<Rightarrow> content)"

definition dir_locked :: directory where
  "dir_locked = [(''feedback_20240113.txt'', Some ''two''), (''feedback_20240114.txt'', None)]"

section \<open>Basic facts\<close>

lemma ebind_Inl [simp]: "ebind (Inl e) f = Inl e"
  by (simp add: ebind_def)

lemma ebind_Inr [simp]: "ebind (Inr x) f = f x"
  by (simp add: ebind_def)

lemma ebind_eq_Inr: "ebind m f = Inr y \<longleftrightarrow> (\<exists>x. m = Inr x \<and> f x = Inr y)"
  by (cases m) simp_all

lemma py_in_key: "py_in (JStr k) (JObj kvs) = Inr (map_of kvs k \<noteq> None)"
  by (simp add: map_of_eq_None_iff)

lemma py_get_obj: "py_get (JObj kvs) k JNull = Inr (field_or_null kvs k)"
  by (simp add: field_or_null_def)

lemma py_get_Inr: "py_get c k d = Inr v \<Longrightarrow> \<exists>kvs. c = JObj kvs"
  by (cases c) simp_all

subsection \<open>The loop over the utterances\<close>

lemma transcript_lines_acc:
  "\<forall>u \<in> set us. is_dict u \<Longrightarrow>
     transcript_lines lib us lines = Inr (lines @ map (utterance_line lib) us)"
proof (induction us arbitrary: lines)
  case Nil
  then show ?case by simp
next
  case (Cons u us)
  then obtain kvs where u: "u = JObj kvs" by (cases u) simp_all
  have line: "fmt lib (case map_of kvs ''source'' of None \<Rightarrow> JStr ''Unknown'' | Some v \<Rightarrow> v) @ '': '' @
      fmt lib (case map_of kvs ''text'' of None \<Rightarrow> JStr [] | Some v \<Rightarrow> v) = utterance_line lib u"
    by (simp add: u utterance_line_def fmt_def split: option.splits)
  from Cons.prems have "\<forall>u \<in> set us. is_dict u" by simp
  from Cons.IH[OF this] show ?case
    using line by (simp add: u)
qed

section \<open>Transcript text\<close>

text \<open>
  Claim C9. On a transcript whose utterances are dicts, \<^verbatim>\<open>format_transcript_text\<close>
  returns the lines \<^verbatim>\<open><speaker>: <text>\<close> of the utterances, one per utterance and in
  the order of the input, joined by newlines; on the example with the sources Alice and
  Bob it returns \<^verbatim>\<open>Alice: Hello\nBob: Hi\<close>, and on the empty transcript the empty string.
\<close>

theorem format_transcript_text_lines:
  "((\<forall>u \<in> set transcript. is_dict u) \<longrightarrow>
      format_transcript_text lib transcript
        = Inr (join [CHR 0x0A] (map (utterance_line lib) transcript))) \<and>
   format_transcript_text lib
      [JObj [(''source'', JStr ''Alice''), (''text'', JStr ''Hello'')],
       JObj [(''source'', JStr ''Bob''), (''text'', JStr ''Hi'')]]
        = Inr (''Alice: Hello'' @ [CHR 0x0A] @ ''Bob: Hi'') \<and>
   format_transcript_text lib [] = Inr []"
proof (intro conjI impI)
  assume d: "\<forall>u \<in> set transcript. is_dict u"
  show "format_transcript_text lib transcript
        = Inr (join [CHR 0x0A] (map (utterance_line lib) transcript))"
    using transcript_lines_acc[OF d, of lib "[]"]
    by (simp add: format_transcript_text_def)
next
  show "format_transcript_text lib
      [JObj [(''source'', JStr ''Alice''), (''text'', JStr ''Hello'')],
       JObj [(''source'', JStr ''Bob''), (''text'', JStr ''Hi'')]]
        = Inr (''Alice: Hello'' @ [CHR 0x0A] @ ''Bob: Hi'')"
    by (simp add: format_transcript_text_def fmt_def)
next
  show "format_transcript_text lib [] = Inr []"
    by (simp add: format_transcript_text_def)
qed

text \<open>The theorem at three utterances, the second without a source.\<close>

theorem format_transcript_text_lines_witness:
  "format_transcript_text lib0
      [JObj [(''source'', JStr ''Alice''), (''text'', JStr ''First line'')],
       JObj [(''text'', JStr ''Second line'')],
       JObj [(''source'', JStr ''Alice''), (''text'', JStr ''Third line'')]]
     = Inr (''Alice: First line'' @ [CHR 0x0A] @ ''Unknown: Second line'' @ [CHR 0x0A] @ ''Alice: Third line'')"
  using format_transcript_text_lines [of
      "[JObj [(''source'', JStr ''Alice''), (''text'', JStr ''First line'')],
       JObj [(''text'', JStr ''Second line'')],
       JObj [(''source'', JStr ''Alice''), (''text'', JStr ''Third line'')]]" lib0]
  by (simp add: utterance_line_def fmt_def)

section \<open>Transcript responses that are not lists\<close>

text \<open>
  Claim C10. When the transcript endpoint answers with a body that is not a list,
  \<^verbatim>\<open>get_document_transcript\<close> returns the empty list and raises nothing, which is
  also what it returns for a body that is the empty list.
\<close>

theorem get_document_transcript_not_list:
  "(make_request lib srv ''/v1/get-document-transcript'' (JObj [(''document_id'', i)]) True s
       = (Inr response, s1) \<and> (\<forall>xs. response \<noteq> JArr xs) \<longrightarrow>
      get_document_transcript lib srv i s = (Inr [], s1)) \<and>
   (make_request lib srv ''/v1/get-document-transcript'' (JObj [(''document_id'', i)]) True s
       = (Inr (JArr []), s1) \<longrightarrow>
      get_document_transcript lib srv i s = (Inr [], s1))"
  by (cases response) (simp_all add: get_document_transcript_def)

text \<open>The theorem at an endpoint that answers with an object holding the utterances.\<close>

theorem get_document_transcript_not_list_witness:
  "make_request lib0 wrapped_server ''/v1/get-document-transcript'' (JObj [(''document_id'', JStr ''d1'')]) True state0
     = (Inr (JObj [(''utterances'', JArr [JObj [(''source'', JStr ''Alice''), (''text'', JStr ''Hello'')]])]),
        state0\<lparr>sent := [ApiPost ''/v1/get-document-transcript'' (JStr ''old'') (JObj [(''document_id'', JStr ''d1'')])]\<rparr>) \<and>
   get_document_transcript lib0 wrapped_server (JStr ''d1'') state0
     = (Inr [], state0\<lparr>sent := [ApiPost ''/v1/get-document-transcript'' (JStr ''old'') (JObj [(''document_id'', JStr ''d1'')])]\<rparr>)"
  using get_document_transcript_not_list [of lib0 wrapped_server "JStr ''d1''" state0
     "JObj [(''utterances'', JArr [JObj [(''source'', JStr ''Alice''), (''text'', JStr ''Hello'')]])]"
     "state0\<lparr>sent := [ApiPost ''/v1/get-document-transcript'' (JStr ''old'') (JObj [(''document_id'', JStr ''d1'')])]\<rparr>"]
  by (simp add: make_request.simps post_def wrapped_server_def state0_def is_http_error_def)

subsection \<open>Dict entries\<close>

lemma map_of_dict_set: "map_of (dict_set kvs k v) k = Some v"
  by (induction kvs) auto

section \<open>Marking a document as processed\<close>

text \<open>
  Claim C3, as the code has it. On a ledger whose \<^verbatim>\<open>processed_documents\<close> is a list:
  marking an id that is in the list changes nothing at all, neither the list nor the
  ledger file, and writes nothing; marking an id that is not in the list appends it to
  the list, keeping every earlier member, and writes the whole ledger to the ledger file
  once. When the file cannot be written, a warning is printed and the file keeps its
  content.
\<close>

theorem mark_as_processed_ledger:
  assumes "ledger s = JObj kvs" and "map_of kvs ''processed_documents'' = Some (JArr ids)"
  shows "(i \<in> set ids \<longrightarrow> mark_as_processed i s = (Inr (), s)) \<and>
         (i \<notin> set ids \<longrightarrow>
            fst (mark_as_processed i s) = Inr () \<and>
            py_getitem (ledger (snd (mark_as_processed i s))) ''processed_documents''
              = Inr (JArr (ids @ [i])) \<and>
            (if state_writable s
             then state_file (snd (mark_as_processed i s)) = FileJson (ledger (snd (mark_as_processed i s)))
                  \<and> state_writes (snd (mark_as_processed i s)) = Suc (state_writes s)
             else state_file (snd (mark_as_processed i s)) = state_file s
                  \<and> state_writes (snd (mark_as_processed i s)) = state_writes s
                  \<and> printed (snd (mark_as_processed i s)) = printed s @ [WarnSaveState]))"
proof (intro conjI impI)
  assume "i \<in> set ids"
  with assms show "mark_as_processed i s = (Inr (), s)"
    by (simp add: mark_as_processed_def)
next
  assume n: "i \<notin> set ids"
  with assms have eq: "mark_as_processed i s =
      (Inr (), save_state (s\<lparr>ledger := JObj (dict_set kvs ''processed_documents'' (JArr (ids @ [i])))\<rparr>))"
    by (simp add: mark_as_processed_def)
  show "fst (mark_as_processed i s) = Inr ()" by (simp add: eq)
  show "py_getitem (ledger (snd (mark_as_processed i s))) ''processed_documents''
              = Inr (JArr (ids @ [i]))"
    by (simp add: eq save_state_def map_of_dict_set)
  show "if state_writable s
             then state_file (snd (mark_as_processed i s)) = FileJson (ledger (snd (mark_as_processed i s)))
                  \<and> state_writes (snd (mark_as_processed i s)) = Suc (state_writes s)
             else state_file (snd (mark_as_processed i s)) = state_file s
                  \<and> state_writes (snd (mark_as_processed i s)) = state_writes s
                  \<and> printed (snd (mark_as_processed i s)) = printed s @ [WarnSaveState]"
    by (simp add: eq save_state_def)
qed

text \<open>The theorem at the ledger of \<^verbatim>\<open>doc1\<close> and \<^verbatim>\<open>doc2\<close>, marking \<^verbatim>\<open>doc3\<close>.\<close>

theorem mark_as_processed_ledger_witness:
  "mark_as_processed (JStr ''doc3'') state0
     = (Inr (), state0\<lparr>ledger := JObj [(''processed_documents'', JArr [JStr ''doc1'', JStr ''doc2'', JStr ''doc3''])],
                       state_file := FileJson (JObj [(''processed_documents'', JArr [JStr ''doc1'', JStr ''doc2'', JStr ''doc3''])]),
                       state_writes := 1\<rparr>) \<and>
   state_writes (snd (mark_as_processed (JStr ''doc3'') state0)) = Suc (state_writes state0)"
  using mark_as_processed_ledger [of state0 "[(''processed_documents'', JArr [JStr ''doc1'', JStr ''doc2''])]"
      "[JStr ''doc1'', JStr ''doc2'']" "JStr ''doc3''"]
  by (simp add: state0_def mark_as_processed_def save_state_def)

text \<open>Marking \<^verbatim>\<open>doc3\<close> again makes no write: the count of writes stays 0 and the
  ledger file stays as it was, against C3 as stated.\<close>

theorem mark_as_processed_again_no_write:
  "mark_as_processed (JStr ''doc3'') state3 = (Inr (), state3) \<and>
   state_writes state3 = 0 \<and> state_file state3 = FileMissing"
  by (simp add: state3_def state0_def mark_as_processed_def)

subsection \<open>Token refresh and single requests\<close>

declare make_request.simps [simp del]

lemma save_refresh_token_sent [simp]: "sent (save_refresh_token lib s) = sent s"
  by (simp add: save_refresh_token_def split: file_content.splits sum.splits)

lemma save_refresh_token_access [simp]: "access_token (save_refresh_token lib s) = access_token s"
  by (simp add: save_refresh_token_def split: file_content.splits sum.splits)

lemma save_refresh_token_refresh [simp]: "refresh_token (save_refresh_token lib s) = refresh_token s"
  by (simp add: save_refresh_token_def split: file_content.splits sum.splits)

lemma save_refresh_token_ledger [simp]: "ledger (save_refresh_token lib s) = ledger s"
  by (simp add: save_refresh_token_def split: file_content.splits sum.splits)

lemma refresh_ok:
  assumes "refresh_access_token lib srv s = (Inr u, s')"
  shows "\<exists>status data. srv (sent s) (AuthPost (refresh_payload s)) = Response status (Some data) \<and>
           \<not> is_http_error status \<and>
           py_getitem data ''access_token'' = Inr (access_token s') \<and>
           py_getitem data ''refresh_token'' = Inr (refresh_token s') \<and>
           sent s' = sent s @ [AuthPost (refresh_payload s)]"
  using assms
  by (auto simp: refresh_access_token_def post_def Let_def
      split: if_splits http_result.splits option.splits sum.splits)

lemma refresh_failed:
  assumes "refresh_access_token lib srv s = (Inl e, s')"
  shows "sent s' = sent s \<or> sent s' = sent s @ [AuthPost (refresh_payload s)]"
  using assms
  by (auto simp: refresh_access_token_def post_def Let_def
      split: if_splits http_result.splits option.splits sum.splits)

lemma make_request_once:
  "make_request lib srv ep p False s =
     (respond (srv (sent s) (ApiPost ep (access_token s) p)),
      s\<lparr>sent := sent s @ [ApiPost ep (access_token s) p]\<rparr>)"
  by (subst make_request.simps) (simp add: post_def respond_def split: http_result.splits option.splits)


lemma refresh_payload_sent [simp]: "refresh_payload (s\<lparr>sent := x\<rparr>) = refresh_payload s"
  by (simp add: refresh_payload_def)

section \<open>A request answered with 401\<close>

text \<open>
  Claim C1, as the code has it. When the first response to \<^verbatim>\<open>_make_request\<close> has
  status 401, the client calls \<^verbatim>\<open>_refresh_access_token\<close> once. If the refresh fails
  (no refresh token, the authentication endpoint fails, or its answer lacks a token), the
  call fails with the error of the refresh and the original request is not sent again:
  the requests made are the first one and at most one to the authentication endpoint.
  If the refresh succeeds, the requests made are exactly the first one, one to the
  authentication endpoint and one retry of the original request, which carries the
  access token of the endpoint's answer; the result of the call is the outcome of the
  retry, which is the API error when the retry is answered with 401 or any other status
  from 400 to 599, and there is no third request.
\<close>

theorem make_request_unauthorized:
  assumes first: "srv (sent s) (ApiPost ep (access_token s) p) = Response 401 b"
  shows "case refresh_access_token lib srv (snd (post srv (ApiPost ep (access_token s) p) s)) of
           (Inl e, s2) \<Rightarrow>
              make_request lib srv ep p True s = (Inl e, s2) \<and>
              (sent s2 = sent s @ [ApiPost ep (access_token s) p] \<or>
               sent s2 = sent s @ [ApiPost ep (access_token s) p, AuthPost (refresh_payload s)])
         | (Inr u, s2) \<Rightarrow>
              make_request lib srv ep p True s =
                (respond (srv (sent s2) (ApiPost ep (access_token s2) p)),
                 s2\<lparr>sent := sent s2 @ [ApiPost ep (access_token s2) p]\<rparr>) \<and>
              sent s2 = sent s @ [ApiPost ep (access_token s) p, AuthPost (refresh_payload s)] \<and>
              (\<exists>status data.
                 srv (sent s @ [ApiPost ep (access_token s) p]) (AuthPost (refresh_payload s))
                   = Response status (Some data) \<and>
                 py_getitem data ''access_token'' = Inr (access_token s2)) \<and>
              (\<forall>status body.
                 srv (sent s2) (ApiPost ep (access_token s2) p) = Response status body \<and>
                 is_http_error status \<longrightarrow>
                 fst (make_request lib srv ep p True s) = Inl ApiRequestFailed)"
proof -
  define s1 where "s1 = s\<lparr>sent := sent s @ [ApiPost ep (access_token s) p]\<rparr>"
  have p1: "post srv (ApiPost ep (access_token s) p) s = (Response 401 b, s1)"
    by (simp add: post_def first s1_def)
  have unfold: "make_request lib srv ep p True s =
      (case refresh_access_token lib srv s1 of
         (Inl e, s2) \<Rightarrow> (Inl e, s2)
       | (Inr u, s2) \<Rightarrow> make_request lib srv ep p False s2)"
    by (subst make_request.simps) (simp add: p1)
  obtain res s2 where r: "refresh_access_token lib srv s1 = (res, s2)"
    by (cases "refresh_access_token lib srv s1")
  have s1_sent: "sent s1 = sent s @ [ApiPost ep (access_token s) p]"
    and s1_pay: "refresh_payload s1 = refresh_payload s"
    by (simp_all add: s1_def)
  show ?thesis
  proof (cases res)
    case (Inl e)
    from refresh_failed[OF r[unfolded Inl]] s1_sent s1_pay
    have "sent s2 = sent s @ [ApiPost ep (access_token s) p] \<or>
          sent s2 = sent s @ [ApiPost ep (access_token s) p, AuthPost (refresh_payload s)]"
      by auto
    then show ?thesis
      using unfold r Inl p1 by (simp)
  next
    case (Inr u)
    from refresh_ok[OF r[unfolded Inr]] s1_sent s1_pay
    obtain status data where
      d: "srv (sent s @ [ApiPost ep (access_token s) p]) (AuthPost (refresh_payload s))
            = Response status (Some data)"
         "py_getitem data ''access_token'' = Inr (access_token s2)"
      and s2_sent: "sent s2 = sent s @ [ApiPost ep (access_token s) p, AuthPost (refresh_payload s)]"
      by auto
    have m: "make_request lib srv ep p True s =
                (respond (srv (sent s2) (ApiPost ep (access_token s2) p)),
                 s2\<lparr>sent := sent s2 @ [ApiPost ep (access_token s2) p]\<rparr>)"
      using unfold r Inr by (simp add: make_request_once)
    have e: "\<forall>status body.
                 srv (sent s2) (ApiPost ep (access_token s2) p) = Response status body \<and>
                 is_http_error status \<longrightarrow>
                 fst (make_request lib srv ep p True s) = Inl ApiRequestFailed"
      by (simp add: m respond_def)
    show ?thesis
      using m d s2_sent e r Inr p1 by auto
  qed
qed

text \<open>The theorem at a 401 followed by a successful refresh and a 200.\<close>

theorem make_request_unauthorized_witness:
  "make_request lib0 rotating_server ''/v2/get-documents'' (listing_payload 100 0) True state0
     = (Inr (JObj [(''docs'', JArr [])]),
        state0\<lparr>access_token := JStr ''new'', refresh_token := JStr ''r1'',
                cred_file := FileJson (JObj [(''access_token'', JStr ''new''), (''refresh_token'', JStr ''r1'')]),
                sent := [ApiPost ''/v2/get-documents'' (JStr ''old'') (listing_payload 100 0),
                         AuthPost (refresh_payload state0),
                         ApiPost ''/v2/get-documents'' (JStr ''new'') (listing_payload 100 0)]\<rparr>)"
  using make_request_unauthorized [of rotating_server state0 "''/v2/get-documents''"
      "listing_payload 100 0" None lib0]
  by (simp add: make_request.simps rotating_server_def state0_def post_def refresh_access_token_def
      save_refresh_token_def updated_creds_def refresh_payload_def is_http_error_def respond_def)

text \<open>A first response 401 followed by a refresh that the authentication endpoint
  rejects: one refresh request, no retry of the original request, against C1 as
  stated.\<close>

theorem make_request_refresh_rejected:
  "make_request lib0 expired_server ''/v2/get-documents'' (listing_payload 100 0) True state0
     = (Inl RefreshFailed,
        state0\<lparr>sent := [ApiPost ''/v2/get-documents'' (JStr ''old'') (listing_payload 100 0),
                         AuthPost (refresh_payload state0)]\<rparr>)"
  by (simp add: make_request.simps expired_server_def state0_def post_def refresh_access_token_def
      refresh_payload_def is_http_error_def)

subsection \<open>Rounds of the pagination loop and the requests they make\<close>








subsection \<open>The loop over the documents of a page\<close>

lemma make_aware_offset: "\<exists>x. utcoffset (make_aware d) = Some x"
  by (cases "utcoffset d") (simp_all add: make_aware_def)

lemma for_docs_append:
  "for_docs lib srv st en (pre @ rest) all s =
     (case for_docs lib srv st en pre all s of
        (Inl e, s') \<Rightarrow> (Inl e, s')
      | (Inr a, s') \<Rightarrow> for_docs lib srv st en rest a s')"
  by (induction pre arbitrary: all s) (auto split: prod.splits sum.splits)

lemma for_docs_no_abort:
  "\<forall>d \<in> set docs. \<exists>c b. parse_created_at lib d = Inr c \<and> in_range st en c = Inr b \<Longrightarrow>
     \<exists>all' s'. for_docs lib srv st en docs all s = (Inr all', s')"
proof (induction docs arbitrary: all s)
  case Nil
  then show ?case by simp
next
  case (Cons d docs)
  then obtain c b where c: "parse_created_at lib d = Inr c" "in_range st en c = Inr b" by auto
  obtain a1 s1 where "process_doc lib srv st en d all s = (Inr a1, s1)"
    using c by (cases b; cases "attach_transcript lib srv d all s") (simp_all add: process_doc_def)
  moreover from Cons.prems have "\<forall>d \<in> set docs. \<exists>c b. parse_created_at lib d = Inr c \<and> in_range st en c = Inr b"
    by simp
  from Cons.IH[OF this, of a1 s1] obtain all' s' where "for_docs lib srv st en docs a1 s1 = (Inr all', s')"
    by blast
  ultimately show ?case by simp
qed

section \<open>Documents whose creation time has no offset\<close>

text \<open>
  Claim C4 does not hold of the code. The bounds are made aware before the loop, but the
  \<^verbatim>\<open>created_at\<close> of a document is compared as \<^verbatim>\<open>fromisoformat\<close> returns it. When the
  first document of the first page has a \<^verbatim>\<open>created_at\<close> without offset, the comparison
  \<^verbatim>\<open>start_date <= created_at\<close> raises \<^verbatim>\<open>TypeError\<close> outside the \<^verbatim>\<open>try\<close>, and the
  whole call fails with it, whatever the bounds are.
\<close>

theorem naive_created_at_raises:
  assumes "get_documents lib srv 100 0 s = (Inr (JArr (doc # docs)), s1)"
    and "py_getitem doc ''created_at'' = Inr (JStr str)"
    and "fromisoformat lib (replace_Z str) = Some d"
    and "utcoffset d = None"
  shows "get_meetings_in_date_range lib srv start_date end_date s = Some (Inl TypeError, s1)"
proof -
  obtain x where x: "utcoffset (make_aware start_date) = Some x"
    using make_aware_offset by blast
  have "dt_le (make_aware start_date) d = Inl TypeError"
    by (simp add: dt_le_def x assms(4))
  then have "process_doc lib srv (make_aware start_date) (make_aware end_date) doc [] s1 = (Inl TypeError, s1)"
    by (simp add: process_doc_def parse_created_at_def assms(2,3) in_range_def)
  then have "for_docs lib srv (make_aware start_date) (make_aware end_date) (doc # docs) [] s1 = (Inl TypeError, s1)"
    by simp
  with assms(1) show ?thesis
    unfolding get_meetings_in_date_range_def
    by (subst scan_pages.simps) simp
qed

text \<open>The theorem at a document created at \<^verbatim>\<open>2024-01-15T10:00:00\<close> and the bounds of
  that day in UTC.\<close>

theorem naive_created_at_raises_witness:
  "get_meetings_in_date_range lib0 naive_server jan15_start jan15_end state0
     = Some (Inl TypeError,
             state0\<lparr>sent := [ApiPost ''/v2/get-documents'' (JStr ''old'') (listing_payload 100 0)]\<rparr>)"
proof -
  have g: "get_documents lib0 naive_server 100 0 state0
      = (Inr (JArr [JObj [(''id'', JStr ''n1''), (''title'', JStr ''Standup''),
               (''created_at'', JStr ''2024-01-15T10:00:00'')]]),
         state0\<lparr>sent := [ApiPost ''/v2/get-documents'' (JStr ''old'') (listing_payload 100 0)]\<rparr>)"
    by (simp add: get_documents_def make_request.simps post_def naive_server_def state0_def
        is_http_error_def)
  show ?thesis
    by (rule naive_created_at_raises [OF g, of "''2024-01-15T10:00:00''"
          "\<lparr>wall = 1705312800000000, utcoffset = None\<rparr>"])
       (simp_all add: replace_Z_def lib0_def)
qed

section \<open>A transcript that cannot be fetched\<close>

text \<open>
  Claim C6. When the transcript request of a document in the range raises, the loop body
  prints a warning and leaves the list of meetings as it was; the \<^verbatim>\<open>for\<close> loop goes
  on with the documents after it, and the \<^verbatim>\<open>while\<close> loop with the pages after that,
  as they would after any other document; and when the dates of the remaining documents
  of the page parse and compare, the \<^verbatim>\<open>for\<close> loop ends without an exception.
\<close>

theorem transcript_failure_skipped:
  assumes "parse_created_at lib doc = Inr created" and "in_range st en created = Inr True"
    and "py_getitem doc ''id'' = Inr i"
    and "get_document_transcript lib srv i s = (Inl e, s1)"
  shows "process_doc lib srv st en doc all s
           = (Inr all, s1\<lparr>printed := printed s1 @ [WarnTranscript (doc_title doc) e]\<rparr>) \<and>
         (for_docs lib srv st en pre all0 s0 = (Inr all, s) \<longrightarrow>
            for_docs lib srv st en (pre @ doc # docs) all0 s0
              = for_docs lib srv st en docs all
                  (s1\<lparr>printed := printed s1 @ [WarnTranscript (doc_title doc) e]\<rparr>)) \<and>
         (for_docs lib srv st en pre all0 s0 = (Inr all, s) \<and>
          get_documents lib srv 100 offset sa = (Inr (JArr (pre @ doc # docs)), s0) \<longrightarrow>
            scan_pages lib srv st en offset all0 sa =
              (case for_docs lib srv st en docs all
                      (s1\<lparr>printed := printed s1 @ [WarnTranscript (doc_title doc) e]\<rparr>) of
                 (Inl e', s2) \<Rightarrow> Some (Inl e', s2)
               | (Inr all', s2) \<Rightarrow>
                   if length (pre @ doc # docs) < 100 then Some (Inr all', s2)
                   else scan_pages lib srv st en (offset + 100) all' s2)) \<and>
         ((\<forall>d \<in> set docs. \<exists>c b. parse_created_at lib d = Inr c \<and> in_range st en c = Inr b) \<longrightarrow>
            (\<exists>all' s2. for_docs lib srv st en (doc # docs) all s = (Inr all', s2)))"
proof -
  let ?s' = "s1\<lparr>printed := printed s1 @ [WarnTranscript (doc_title doc) e]\<rparr>"
  have p: "process_doc lib srv st en doc all s = (Inr all, ?s')"
    using assms by (simp add: process_doc_def attach_transcript_def)
  have f: "for_docs lib srv st en (pre @ doc # docs) all0 s0 = for_docs lib srv st en docs all ?s'"
    if "for_docs lib srv st en pre all0 s0 = (Inr all, s)"
    using that p by (simp add: for_docs_append)
  have sc: "scan_pages lib srv st en offset all0 sa =
              (case for_docs lib srv st en docs all ?s' of
                 (Inl e', s2) \<Rightarrow> Some (Inl e', s2)
               | (Inr all', s2) \<Rightarrow>
                   if length (pre @ doc # docs) < 100 then Some (Inr all', s2)
                   else scan_pages lib srv st en (offset + 100) all' s2)"
    if "for_docs lib srv st en pre all0 s0 = (Inr all, s)"
      and "get_documents lib srv 100 offset sa = (Inr (JArr (pre @ doc # docs)), s0)"
    using that(2) f[OF that(1)]
    by (subst scan_pages.simps) (simp split: prod.splits sum.splits)
  have na: "\<exists>all' s2. for_docs lib srv st en (doc # docs) all s = (Inr all', s2)"
    if "\<forall>d \<in> set docs. \<exists>c b. parse_created_at lib d = Inr c \<and> in_range st en c = Inr b"
    using for_docs_no_abort[OF that, of srv all ?s'] p by simp
  from p f sc na show ?thesis by blast
qed

text \<open>The theorem at a page of two documents where the transcript endpoint answers
  the first with status 500.\<close>

theorem transcript_failure_skipped_witness:
  "get_meetings_in_date_range lib0 flaky_server jan15_start jan15_end state0
     = Some (Inr [JObj [(''id'', JStr ''b''), (''title'', JStr ''Second''),
                        (''created_at'', JStr ''2024-01-15T10:00:00Z''),
                        (''transcript'', JArr [JObj [(''source'', JStr ''Alice''), (''text'', JStr ''Hello'')]])]],
             state0\<lparr>sent := [ApiPost ''/v2/get-documents'' (JStr ''old'') (listing_payload 100 0),
                              ApiPost ''/v1/get-document-transcript'' (JStr ''old'') (JObj [(''document_id'', JStr ''a'')]),
                              ApiPost ''/v1/get-document-transcript'' (JStr ''old'') (JObj [(''document_id'', JStr ''b'')])],
                     printed := [WarnTranscript (JStr ''First'') ApiRequestFailed]\<rparr>)"
proof -
  define da where "da = JObj [(''id'', JStr ''a''), (''title'', JStr ''First''),
                        (''created_at'', JStr ''2024-01-15T10:00:00Z'')]"
  define db where "db = JObj [(''id'', JStr ''b''), (''title'', JStr ''Second''),
                        (''created_at'', JStr ''2024-01-15T10:00:00Z'')]"
  define t1 where "t1 = state0\<lparr>sent := [ApiPost ''/v2/get-documents'' (JStr ''old'') (listing_payload 100 0)]\<rparr>"
  define t2 where "t2 = state0\<lparr>sent := [ApiPost ''/v2/get-documents'' (JStr ''old'') (listing_payload 100 0),
                              ApiPost ''/v1/get-document-transcript'' (JStr ''old'') (JObj [(''document_id'', JStr ''a'')])]\<rparr>"
  define created where "created = \<lparr>wall = 1705312800000000, utcoffset = Some 0\<rparr>"
  have g: "get_documents lib0 flaky_server 100 0 state0 = (Inr (JArr ([] @ da # [db])), t1)"
    by (simp add: get_documents_def make_request.simps post_def flaky_server_def state0_def
        is_http_error_def da_def db_def t1_def)
  have pa: "parse_created_at lib0 da = Inr created"
    by (simp add: parse_created_at_def replace_Z_def lib0_def da_def created_def)
  have ir: "in_range jan15_start jan15_end created = Inr True"
    by (simp add: in_range_def dt_le_def jan15_start_def jan15_end_def created_def)
  have ia: "py_getitem da ''id'' = Inr (JStr ''a'')"
    by (simp add: da_def)
  have ta: "get_document_transcript lib0 flaky_server (JStr ''a'') t1 = (Inl ApiRequestFailed, t2)"
    by (simp add: get_document_transcript_def make_request.simps post_def flaky_server_def
        state0_def is_http_error_def t1_def t2_def)
  have f0: "for_docs lib0 flaky_server jan15_start jan15_end [] [] t1 = (Inr [], t1)"
    by simp
  have rest: "for_docs lib0 flaky_server jan15_start jan15_end [db] []
                (t2\<lparr>printed := printed t2 @ [WarnTranscript (doc_title da) ApiRequestFailed]\<rparr>)
     = (Inr [JObj [(''id'', JStr ''b''), (''title'', JStr ''Second''),
                        (''created_at'', JStr ''2024-01-15T10:00:00Z''),
                        (''transcript'', JArr [JObj [(''source'', JStr ''Alice''), (''text'', JStr ''Hello'')]])]],
        state0\<lparr>sent := [ApiPost ''/v2/get-documents'' (JStr ''old'') (listing_payload 100 0),
                              ApiPost ''/v1/get-document-transcript'' (JStr ''old'') (JObj [(''document_id'', JStr ''a'')]),
                              ApiPost ''/v1/get-document-transcript'' (JStr ''old'') (JObj [(''document_id'', JStr ''b'')])],
                     printed := [WarnTranscript (JStr ''First'') ApiRequestFailed]\<rparr>)"
    by (simp add: process_doc_def parse_created_at_def replace_Z_def lib0_def in_range_def dt_le_def
        jan15_start_def jan15_end_def attach_transcript_def get_document_transcript_def
        make_request.simps post_def flaky_server_def state0_def is_http_error_def
        db_def da_def t2_def doc_title_def)
  from transcript_failure_skipped [OF pa ir ia ta, where pre = "[]" and ?all0.0 = "[]"
      and ?s0.0 = t1 and all = "[]" and docs = "[db]" and offset = 0 and sa = state0] f0 g rest
  have "scan_pages lib0 flaky_server jan15_start jan15_end 0 [] state0
     = Some (Inr [JObj [(''id'', JStr ''b''), (''title'', JStr ''Second''),
                        (''created_at'', JStr ''2024-01-15T10:00:00Z''),
                        (''transcript'', JArr [JObj [(''source'', JStr ''Alice''), (''text'', JStr ''Hello'')]])]],
        state0\<lparr>sent := [ApiPost ''/v2/get-documents'' (JStr ''old'') (listing_payload 100 0),
                              ApiPost ''/v1/get-document-transcript'' (JStr ''old'') (JObj [(''document_id'', JStr ''a'')]),
                              ApiPost ''/v1/get-document-transcript'' (JStr ''old'') (JObj [(''document_id'', JStr ''b'')])],
                     printed := [WarnTranscript (JStr ''First'') ApiRequestFailed]\<rparr>)"
    by simp
  then show ?thesis
    by (simp add: get_meetings_in_date_range_def make_aware_def jan15_start_def jan15_end_def)
qed

subsection \<open>The client leaves the ledger alone\<close>

lemma refresh_ledger: "refresh_access_token lib srv s = (r, s') \<Longrightarrow> ledger s' = ledger s"
  by (auto simp: refresh_access_token_def post_def Let_def
      split: if_splits http_result.splits option.splits sum.splits)

lemma make_request_ledger: "make_request lib srv ep p retry s = (r, s') \<Longrightarrow> ledger s' = ledger s"
proof (cases retry)
  case False
  assume "make_request lib srv ep p retry s = (r, s')"
  with False show ?thesis by (auto simp: make_request_once)
next
  case True
  assume m: "make_request lib srv ep p retry s = (r, s')"
  define s1 where "s1 = s\<lparr>sent := sent s @ [ApiPost ep (access_token s) p]\<rparr>"
  have l1: "ledger s1 = ledger s" by (simp add: s1_def)
  obtain res s2 where rf: "refresh_access_token lib srv s1 = (res, s2)"
    by (cases "refresh_access_token lib srv s1")
  have l2: "ledger s2 = ledger s" using refresh_ledger[OF rf] l1 by simp
  have "make_request lib srv ep p True s = (r, s') \<Longrightarrow> ledger s' = ledger s"
    apply (subst (asm) make_request.simps)
    apply (simp add: post_def s1_def[symmetric] split: http_result.splits)
    using l1 l2
    apply (auto simp: rf make_request_once split: if_splits option.splits sum.splits)
    done
  with m True show ?thesis by simp
qed

lemma get_documents_ledger:
  "get_documents lib srv limit offset s = (r, s') \<Longrightarrow> ledger s' = ledger s"
  by (auto simp: get_documents_def dest: make_request_ledger split: prod.splits sum.splits)

lemma get_document_transcript_ledger:
  "get_document_transcript lib srv i s = (r, s') \<Longrightarrow> ledger s' = ledger s"
  by (auto simp: get_document_transcript_def dest: make_request_ledger split: prod.splits sum.splits)

lemma attach_transcript_ledger:
  "attach_transcript lib srv doc all s = (r, s') \<Longrightarrow> ledger s' = ledger s"
  by (auto simp: attach_transcript_def dest: get_document_transcript_ledger
      split: prod.splits sum.splits)

lemma process_doc_ledger:
  "process_doc lib srv st en doc all s = (r, s') \<Longrightarrow> ledger s' = ledger s"
  by (auto simp: process_doc_def dest: attach_transcript_ledger
      split: prod.splits sum.splits bool.splits)

lemma for_docs_ledger:
  "for_docs lib srv st en docs all s = (r, s') \<Longrightarrow> ledger s' = ledger s"
proof (induction docs arbitrary: all s)
  case Nil
  then show ?case by simp
next
  case (Cons d docs)
  obtain r1 s1 where p: "process_doc lib srv st en d all s = (r1, s1)"
    by (cases "process_doc lib srv st en d all s")
  from process_doc_ledger[OF p] have l1: "ledger s1 = ledger s" .
  show ?case
  proof (cases r1)
    case (Inl e)
    with Cons.prems p l1 show ?thesis by simp
  next
    case (Inr a)
    with Cons.prems p have "for_docs lib srv st en docs a s1 = (r, s')" by simp
    from Cons.IH[OF this] l1 show ?thesis by simp
  qed
qed

lemma scan_pages_ledger:
  assumes "scan_pages lib srv st en offset all s = Some y"
  shows "ledger (snd y) = ledger s"
proof (rule scan_pages.raw_induct
    [where P = "\<lambda>lib srv st en offset all s y. ledger (snd y) = ledger s", OF _ assms])
  fix scan :: "pylib \<Rightarrow> server \<Rightarrow> pydatetime \<Rightarrow> pydatetime \<Rightarrow> int \<Rightarrow> json list \<Rightarrow> state
     \<Rightarrow> ((error + json list) \<times> state) option"
  fix lib srv st en offset all s y
  assume IH: "\<And>lib srv st en offset all s y.
      scan lib srv st en offset all s = Some y \<Longrightarrow> ledger (snd y) = ledger s"
  assume body: "(case get_documents lib srv 100 offset s of
      (Inl e, s1) \<Rightarrow> Some (Inl e, s1)
      | (Inr documents, s1) \<Rightarrow>
          if \<not> truthy documents then Some (Inr all, s1)
          else case documents of
               JArr docs \<Rightarrow>
                 (case for_docs lib srv st en docs all s1 of
                 (Inl e, s2) \<Rightarrow> Some (Inl e, s2)
                 | (Inr all', s2) \<Rightarrow>
                     if int (length docs) < 100 then Some (Inr all', s2)
                     else scan lib srv st en (offset + 100) all' s2)
               | _ \<Rightarrow> Some (Inl TypeError, s1)) = Some y"
  obtain r1 s1 where g: "get_documents lib srv 100 offset s = (r1, s1)"
    by (cases "get_documents lib srv 100 offset s")
  from get_documents_ledger[OF g] have l1: "ledger s1 = ledger s" .
  show "ledger (snd y) = ledger s"
  proof (cases r1)
    case (Inl e)
    from body have "y = (Inl e, s1)" by (simp add: g Inl)
    with l1 show ?thesis by simp
  next
    case (Inr documents)
    show ?thesis
    proof (cases "\<exists>docs. documents = JArr docs")
      case False
      with body have "snd y = s1"
        by (cases documents) (auto simp: g Inr split: if_splits)
      with l1 show ?thesis by simp
    next
      case True
      then obtain docs where d: "documents = JArr docs" by blast
      obtain r2 s2 where f: "for_docs lib srv st en docs all s1 = (r2, s2)"
        by (cases "for_docs lib srv st en docs all s1")
      from for_docs_ledger[OF f] l1 have l2: "ledger s2 = ledger s" by simp
      show ?thesis
      proof (cases r2)
        case (Inl e)
        from body have "snd y = s1 \<or> snd y = s2"
          by (auto simp: g Inr d f Inl split: if_splits)
        with l1 l2 show ?thesis by auto
      next
        case r: (Inr all')
        show ?thesis
        proof (cases "docs = [] \<or> int (length docs) < 100")
          case True
          with body have "snd y = s1 \<or> snd y = s2"
            by (auto simp: g Inr d f r split: if_splits)
          with l1 l2 show ?thesis by auto
        next
          case False
          with body have "scan lib srv st en (offset + 100) all' s2 = Some y"
            by (auto simp: g Inr d f r split: if_splits)
          from IH[OF this] l2 show ?thesis by simp
        qed
      qed
    qed
  qed
qed

lemma filter_new_kept:
  "filter_new ms s = Inr out \<Longrightarrow>
     \<forall>m \<in> set out. \<exists>i. py_getitem m ''id'' = Inr i \<and> is_processed i s = Inr False"
proof (induction ms arbitrary: out)
  case Nil
  then show ?case by simp
next
  case (Cons m ms)
  from Cons.prems obtain i b rest where
    i: "py_getitem m ''id'' = Inr i" and b: "is_processed i s = Inr b"
    and rest: "filter_new ms s = Inr rest" and out: "out = (if b then rest else m # rest)"
    by (auto simp: ebind_eq_Inr)
  from Cons.IH[OF rest] i b out show ?case by auto
qed

lemma is_processed_list:
  "ledger s = JObj kvs \<Longrightarrow> map_of kvs ''processed_documents'' = Some (JArr ids) \<Longrightarrow>
     is_processed i s = Inr (i \<in> set ids)"
  by (simp add: is_processed_def)

lemma is_processed_ledger: "ledger s1 = ledger s \<Longrightarrow> is_processed i s1 = is_processed i s"
  by (simp add: is_processed_def)

section \<open>Fetching new meetings only\<close>

text \<open>
  Claim C7. When \<^verbatim>\<open>fetch_meetings\<close> is called with \<^verbatim>\<open>new_only\<close> and returns a list,
  the client has left the ledger as it was, and every meeting of the list has an id for
  which \<^verbatim>\<open>_is_processed\<close> is false; on a ledger whose \<^verbatim>\<open>processed_documents\<close> is a
  list, no meeting of the returned list has its id in that list.
\<close>

theorem new_only_excludes_processed:
  assumes "fetch_meetings lib srv start_date end_date True s = Some (Inr meetings, s1)"
  shows "ledger s1 = ledger s \<and>
         (\<forall>m \<in> set meetings. \<exists>i. py_getitem m ''id'' = Inr i \<and> is_processed i s = Inr False) \<and>
         (\<forall>kvs ids. ledger s = JObj kvs \<and> map_of kvs ''processed_documents'' = Some (JArr ids) \<longrightarrow>
            (\<forall>m \<in> set meetings. \<forall>i. py_getitem m ''id'' = Inr i \<longrightarrow> i \<notin> set ids))"
proof -
  from assms obtain fetched where
    g: "get_meetings_in_date_range lib srv start_date end_date s = Some (Inr fetched, s1)"
    and f: "filter_new fetched s1 = Inr meetings"
    by (auto simp: fetch_meetings_def split: option.splits prod.splits sum.splits)
  from g have l: "ledger s1 = ledger s"
    using scan_pages_ledger[of lib srv "make_aware start_date" "make_aware end_date" 0 "[]" s "(Inr fetched, s1)"]
    by (simp add: get_meetings_in_date_range_def)
  from filter_new_kept[OF f] is_processed_ledger[OF l]
  have k: "\<forall>m \<in> set meetings. \<exists>i. py_getitem m ''id'' = Inr i \<and> is_processed i s = Inr False"
    by simp
  have "\<forall>m \<in> set meetings. \<forall>i. py_getitem m ''id'' = Inr i \<longrightarrow> i \<notin> set ids"
    if "ledger s = JObj kvs" "map_of kvs ''processed_documents'' = Some (JArr ids)" for kvs ids
    using k is_processed_list[OF that] by fastforce
  with l k show ?thesis by blast
qed

text \<open>The theorem at the ledger of \<^verbatim>\<open>doc1\<close> and \<^verbatim>\<open>doc2\<close> and a listing of
  \<^verbatim>\<open>doc1\<close> and \<^verbatim>\<open>doc9\<close>.\<close>

theorem new_only_excludes_processed_witness:
  "fetch_meetings lib0 ledger_server jan15_start jan15_end True state0
     = Some (Inr [JObj [(''id'', JStr ''doc9''), (''created_at'', JStr ''2024-01-15T10:00:00Z''),
                        (''transcript'', JArr [])]],
             state0\<lparr>sent := [ApiPost ''/v2/get-documents'' (JStr ''old'') (listing_payload 100 0),
                              ApiPost ''/v1/get-document-transcript'' (JStr ''old'') (JObj [(''document_id'', JStr ''doc1'')]),
                              ApiPost ''/v1/get-document-transcript'' (JStr ''old'') (JObj [(''document_id'', JStr ''doc9'')])]\<rparr>) \<and>
   is_processed (JStr ''doc9'') state0 = Inr False \<and> is_processed (JStr ''doc1'') state0 = Inr True"
proof -
  define t3 where "t3 = state0\<lparr>sent := [ApiPost ''/v2/get-documents'' (JStr ''old'') (listing_payload 100 0),
                              ApiPost ''/v1/get-document-transcript'' (JStr ''old'') (JObj [(''document_id'', JStr ''doc1'')]),
                              ApiPost ''/v1/get-document-transcript'' (JStr ''old'') (JObj [(''document_id'', JStr ''doc9'')])]\<rparr>"
  have gm: "get_meetings_in_date_range lib0 ledger_server jan15_start jan15_end state0
     = Some (Inr [JObj [(''id'', JStr ''doc1''), (''created_at'', JStr ''2024-01-15T10:00:00Z''),
                        (''transcript'', JArr [])],
                  JObj [(''id'', JStr ''doc9''), (''created_at'', JStr ''2024-01-15T10:00:00Z''),
                        (''transcript'', JArr [])]], t3)"
    unfolding get_meetings_in_date_range_def
    by (subst scan_pages.simps)
       (simp add: get_documents_def make_request.simps post_def ledger_server_def state0_def
          is_http_error_def process_doc_def parse_created_at_def replace_Z_def lib0_def in_range_def
          dt_le_def jan15_start_def jan15_end_def make_aware_def attach_transcript_def
          get_document_transcript_def t3_def)
  have fm: "fetch_meetings lib0 ledger_server jan15_start jan15_end True state0
     = Some (Inr [JObj [(''id'', JStr ''doc9''), (''created_at'', JStr ''2024-01-15T10:00:00Z''),
                        (''transcript'', JArr [])]], t3)"
    unfolding fetch_meetings_def gm
    by (simp add: is_processed_def t3_def state0_def)
  from new_only_excludes_processed[OF fm]
  have "is_processed (JStr ''doc9'') state0 = Inr False" by simp
  moreover have "is_processed (JStr ''doc1'') state0 = Inr True"
    by (simp add: is_processed_def state0_def)
  ultimately show ?thesis using fm by (simp add: t3_def)
qed

subsection \<open>Reading the tokens\<close>

lemma tokens_pair_obj:
  "ebind (py_get (JObj w) ''access_token'' JNull) (\<lambda>a.
     ebind (py_get (JObj w) ''refresh_token'' JNull) (\<lambda>r. Inr (a, r)))
   = Inr (field_or_null w ''access_token'', field_or_null w ''refresh_token'')"
  by (simp add: field_or_null_def)

lemma load_tokens_readable:
  assumes "shape_readable lib kvs"
  shows "load_tokens lib (JObj kvs) =
           Inr (field_or_null (tokens_dict lib kvs) ''access_token'',
                field_or_null (tokens_dict lib kvs) ''refresh_token'')"
proof (cases "map_of kvs ''workos_tokens''")
  case (Some v)
  with assms obtain enc w where v: "v = JStr enc" and w: "json_loads lib enc = Some (JObj w)"
    by (auto simp: shape_readable_def split: json.splits option.splits)
  from Some v w show ?thesis
    unfolding load_tokens_def py_in_key
    by (simp add: py_json_loads_def tokens_dict_def field_or_null_def)
next
  case None
  note nw = this
  show ?thesis
  proof (cases "map_of kvs ''currentSession''")
    case (Some v)
    with assms nw obtain se where v: "v = JObj se"
      by (auto simp: shape_readable_def split: json.splits)
    from nw Some v show ?thesis
      unfolding load_tokens_def py_in_key
      by (simp add: tokens_dict_def field_or_null_def)
  next
    case None
    with nw show ?thesis
      unfolding load_tokens_def py_in_key
      by (simp add: tokens_dict_def field_or_null_def)
  qed
qed

lemma load_tokens_only_readable:
  assumes "load_tokens lib (JObj kvs) = Inr t"
  shows "shape_readable lib kvs"
proof (cases "map_of kvs ''workos_tokens''")
  case (Some v)
  then have eq: "load_tokens lib (JObj kvs) =
      ebind (py_json_loads lib v) (\<lambda>r. case r of None \<Rightarrow> Inl CredentialsParseFailed
        | Some w \<Rightarrow> ebind (py_get w ''access_token'' JNull) (\<lambda>a.
               ebind (py_get w ''refresh_token'' JNull) (\<lambda>r. Inr (a, r))))"
    unfolding load_tokens_def py_in_key by simp
  from assms eq obtain enc w where v: "v = JStr enc" and w: "json_loads lib enc = Some w"
    and p: "ebind (py_get w ''access_token'' JNull) (\<lambda>a.
               ebind (py_get w ''refresh_token'' JNull) (\<lambda>r. Inr (a, r))) = Inr t"
    by (cases v) (auto simp: py_json_loads_def split: option.splits)
  from p obtain d where "w = JObj d" by (cases w) simp_all
  with Some v w show ?thesis by (simp add: shape_readable_def)
next
  case None
  note nw = this
  show ?thesis
  proof (cases "map_of kvs ''currentSession''")
    case (Some v)
    with nw have eq: "load_tokens lib (JObj kvs) =
        ebind (py_get v ''access_token'' JNull) (\<lambda>a.
               ebind (py_get v ''refresh_token'' JNull) (\<lambda>r. Inr (a, r)))"
      unfolding load_tokens_def py_in_key by simp
    from assms[unfolded eq] obtain d where "v = JObj d" by (cases v) simp_all
    with nw Some show ?thesis by (simp add: shape_readable_def)
  next
    case None
    with nw show ?thesis by (simp add: shape_readable_def)
  qed
qed

section \<open>Credentials after construction\<close>

text \<open>
  Claim C2, as the code has it. Construction fails when the credential file is missing,
  when it cannot be read and when it is not JSON. It succeeds exactly when the file is a
  JSON object whose shape can be read, and then the client id is the file's or the
  default and each token is what the first matching shape holds for it: \<^verbatim>\<open>None\<close>
  when that shape does not hold it, and when no shape matches. Nothing requires the
  tokens to be present; when the refresh token is absent, a token refresh fails with
  \<^verbatim>\<open>No refresh token available\<close>, and so does a request that is answered with 401.
\<close>

theorem load_credentials_tokens:
  "load_credentials lib FileMissing = Inl CredentialsNotFound \<and>
   load_credentials lib FileUnreadable = Inl ReadError \<and>
   load_credentials lib FileNotJson = Inl CredentialsParseFailed \<and>
   (shape_readable lib kvs \<longrightarrow>
      load_credentials lib (FileJson (JObj kvs)) =
        Inr (field_or_null (tokens_dict lib kvs) ''access_token'',
             field_or_null (tokens_dict lib kvs) ''refresh_token'',
             case map_of kvs ''client_id'' of None \<Rightarrow> DEFAULT_CLIENT_ID | Some v \<Rightarrow> v)) \<and>
   (load_credentials lib f = Inr (a, r, c) \<longrightarrow>
      (\<exists>kvs. f = FileJson (JObj kvs) \<and> shape_readable lib kvs)) \<and>
   (\<not> truthy (refresh_token s) \<longrightarrow>
      refresh_access_token lib srv s = (Inl NoRefreshToken, s)) \<and>
   (\<not> truthy (refresh_token s) \<and>
    srv (sent s) (ApiPost ep (access_token s) p) = Response 401 b \<longrightarrow>
      make_request lib srv ep p True s =
        (Inl NoRefreshToken, s\<lparr>sent := sent s @ [ApiPost ep (access_token s) p]\<rparr>))"
proof (intro conjI impI)
  show "load_credentials lib FileMissing = Inl CredentialsNotFound"
    by (simp add: load_credentials_def)
  show "load_credentials lib FileUnreadable = Inl ReadError"
    by (simp add: load_credentials_def)
  show "load_credentials lib FileNotJson = Inl CredentialsParseFailed"
    by (simp add: load_credentials_def)
next
  assume "shape_readable lib kvs"
  from load_tokens_readable[OF this]
  show "load_credentials lib (FileJson (JObj kvs)) =
        Inr (field_or_null (tokens_dict lib kvs) ''access_token'',
             field_or_null (tokens_dict lib kvs) ''refresh_token'',
             case map_of kvs ''client_id'' of None \<Rightarrow> DEFAULT_CLIENT_ID | Some v \<Rightarrow> v)"
    by (simp add: load_credentials_def)
next
  assume ok: "load_credentials lib f = Inr (a, r, c)"
  then obtain creds where f: "f = FileJson creds"
    by (cases f) (simp_all add: load_credentials_def)
  from ok f obtain t where t: "load_tokens lib creds = Inr t"
    and g: "(case t of (a, r) \<Rightarrow> ebind (py_get creds ''client_id'' DEFAULT_CLIENT_ID)
              (\<lambda>c. Inr (a, r, c))) = Inr (a, r, c)"
    by (auto simp: load_credentials_def ebind_eq_Inr)
  from g obtain c' where "py_get creds ''client_id'' DEFAULT_CLIENT_ID = Inr c'"
    by (cases t) (auto simp: ebind_eq_Inr)
  from py_get_Inr[OF this] obtain kvs where kvs: "creds = JObj kvs" by blast
  from load_tokens_only_readable[OF t[unfolded kvs]] f kvs
  show "\<exists>kvs. f = FileJson (JObj kvs) \<and> shape_readable lib kvs" by blast
next
  assume "\<not> truthy (refresh_token s)"
  then show "refresh_access_token lib srv s = (Inl NoRefreshToken, s)"
    by (simp add: refresh_access_token_def)
next
  assume a: "\<not> truthy (refresh_token s) \<and>
    srv (sent s) (ApiPost ep (access_token s) p) = Response 401 b"
  then show "make_request lib srv ep p True s =
        (Inl NoRefreshToken, s\<lparr>sent := sent s @ [ApiPost ep (access_token s) p]\<rparr>)"
    by (subst make_request.simps) (simp add: post_def refresh_access_token_def)
qed

text \<open>The theorem at a file of the first shape with both tokens, at a file of the second
  shape without refresh token, and at the client that this file constructs.\<close>

theorem load_credentials_tokens_witness:
  "load_credentials lib0 (FileJson (JObj [(''workos_tokens'', JStr ''{access_token: a1, refresh_token: r1}'')]))
     = Inr (JStr ''a1'', JStr ''r1'', DEFAULT_CLIENT_ID) \<and>
   load_credentials lib0 (FileJson (JObj [(''currentSession'', JObj [(''access_token'', JStr ''a2'')])]))
     = Inr (JStr ''a2'', JNull, DEFAULT_CLIENT_ID) \<and>
   refresh_access_token lib0 expired_server (state0\<lparr>access_token := JStr ''a2'', refresh_token := JNull\<rparr>)
     = (Inl NoRefreshToken, state0\<lparr>access_token := JStr ''a2'', refresh_token := JNull\<rparr>) \<and>
   make_request lib0 expired_server ''/v2/get-documents'' (listing_payload 100 0) True
       (state0\<lparr>access_token := JStr ''a2'', refresh_token := JNull\<rparr>)
     = (Inl NoRefreshToken,
        state0\<lparr>access_token := JStr ''a2'', refresh_token := JNull,
                sent := [ApiPost ''/v2/get-documents'' (JStr ''a2'') (listing_payload 100 0)]\<rparr>)"
proof -
  have r1: "shape_readable lib0 [(''workos_tokens'', JStr ''{access_token: a1, refresh_token: r1}'')]"
    by (simp add: shape_readable_def lib0_def)
  have r2: "shape_readable lib0 [(''currentSession'', JObj [(''access_token'', JStr ''a2'')])]"
    by (simp add: shape_readable_def)
  let ?s = "state0\<lparr>access_token := JStr ''a2'', refresh_token := JNull\<rparr>"
  have n: "\<not> truthy (refresh_token ?s)" by simp
  have u: "expired_server (sent ?s) (ApiPost ''/v2/get-documents'' (access_token ?s) (listing_payload 100 0))
             = Response 401 None"
    by (simp add: expired_server_def)
  note t1 = load_credentials_tokens [where lib = lib0
      and kvs = "[(''workos_tokens'', JStr ''{access_token: a1, refresh_token: r1}'')]"]
  note t2 = load_credentials_tokens [where lib = lib0
      and kvs = "[(''currentSession'', JObj [(''access_token'', JStr ''a2'')])]"
      and s = ?s and srv = expired_server and ep = "''/v2/get-documents''"
      and p = "listing_payload 100 0" and b = None]
  from t1 r1 have c1: "load_credentials lib0 (FileJson (JObj [(''workos_tokens'', JStr ''{access_token: a1, refresh_token: r1}'')]))
     = Inr (JStr ''a1'', JStr ''r1'', DEFAULT_CLIENT_ID)"
    by (simp add: tokens_dict_def field_or_null_def lib0_def)
  from t2 r2 have c2: "load_credentials lib0 (FileJson (JObj [(''currentSession'', JObj [(''access_token'', JStr ''a2'')])]))
     = Inr (JStr ''a2'', JNull, DEFAULT_CLIENT_ID)"
    by (simp add: tokens_dict_def field_or_null_def)
  from t2 n have c3: "refresh_access_token lib0 expired_server ?s = (Inl NoRefreshToken, ?s)"
    by blast
  from t2 n u have c4: "make_request lib0 expired_server ''/v2/get-documents'' (listing_payload 100 0) True ?s
     = (Inl NoRefreshToken, ?s\<lparr>sent := sent ?s @ [ApiPost ''/v2/get-documents'' (access_token ?s) (listing_payload 100 0)]\<rparr>)"
    by blast
  from c1 c2 c3 c4 show ?thesis by (simp add: state0_def)
qed

text \<open>The empty object \<^verbatim>\<open>{}\<close> is a credential file on which construction
  succeeds and leaves both tokens \<^verbatim>\<open>None\<close>, against C2 as stated.\<close>

theorem load_credentials_absent_tokens:
  "load_credentials lib0 (FileJson (JObj [])) = Inr (JNull, JNull, DEFAULT_CLIENT_ID)"
  by (simp add: load_credentials_def load_tokens_def)

subsection \<open>What a round of the pagination loop comes to\<close>






section \<open>Pagination\<close>




subsection \<open>Feedback files of the past week\<close>

lemma days_ago_eq: "days_ago now d = now div DAY - d"
  by (simp add: days_ago_def DAY_def)

lemma feedback_files_sound:
  "e \<in> set (feedback_files lib now dir) \<Longrightarrow>
     (\<exists>content. (snd e, content) \<in> set dir) \<and> glob_feedback (snd e) \<and>
     file_date lib (snd e) = Some (fst e) \<and> 1 \<le> days_ago now (fst e) \<and> days_ago now (fst e) \<le> 7"
proof (induction lib now dir rule: feedback_files.induct)
  case (1 lib now)
  then show ?case by simp
next
  case (2 lib now name content fs)
  then show ?case
    by (auto split: if_splits option.splits)
qed

lemma feedback_files_complete:
  "(name, content) \<in> set dir \<Longrightarrow> glob_feedback name \<Longrightarrow> file_date lib name = Some d \<Longrightarrow>
     1 \<le> days_ago now d \<Longrightarrow> days_ago now d \<le> 7 \<Longrightarrow> (d, name) \<in> set (feedback_files lib now dir)"
  by (induction lib now dir rule: feedback_files.induct) (auto split: option.splits)

lemma feedback_files_names:
  "snd ` set (feedback_files lib now dir) \<subseteq> fst ` set dir"
  by (induction lib now dir rule: feedback_files.induct) (auto split: option.splits)

lemma feedback_files_distinct:
  "distinct (map fst dir) \<Longrightarrow> distinct (feedback_files lib now dir)"
proof (induction lib now dir rule: feedback_files.induct)
  case (1 lib now)
  then show ?case by simp
next
  case (2 lib now name content fs)
  from feedback_files_names[of lib now fs] have "\<And>d. (d, name) \<in> set (feedback_files lib now fs) \<Longrightarrow> name \<in> fst ` set fs"
    by force
  with 2 show ?case
    by (auto split: option.splits)
qed

lemma take_ge_drop:
  fixes xs :: "('a::linorder) list"
  assumes "sorted (rev xs)" and "a \<in> set (take n xs)" and "b \<in> set (drop n xs)"
  shows "b \<le> a"
proof -
  have "rev xs = rev (drop n xs) @ rev (take n xs)"
    by (metis append_take_drop_id rev_append)
  with assms(1) have "\<forall>x \<in> set (rev (drop n xs)). \<forall>y \<in> set (rev (take n xs)). x \<le> y"
    by (simp add: sorted_append)
  with assms(2,3) show ?thesis by simp
qed

lemma recent_length:
  "length (recent_feedback lib now dir) = min 3 (length (feedback_files lib now dir))"
  by (simp add: recent_feedback_def min.commute)

lemma recent_sorted: "sorted (rev (recent_feedback lib now dir))"
proof -
  let ?xs = "rev (sort (feedback_files lib now dir))"
  have "rev ?xs = rev (drop 3 ?xs) @ rev (take 3 ?xs)"
    by (metis append_take_drop_id rev_append)
  moreover have "sorted (rev ?xs)" by simp
  ultimately have "sorted (rev (drop 3 ?xs) @ rev (take 3 ?xs))" by simp
  then show ?thesis by (simp add: sorted_append recent_feedback_def)
qed

lemma recent_older:
  "\<exists>older. mset (recent_feedback lib now dir @ older) = mset (feedback_files lib now dir) \<and>
           (\<forall>e \<in> set (recent_feedback lib now dir). \<forall>e' \<in> set older. e' \<le> e)"
proof -
  let ?xs = "rev (sort (feedback_files lib now dir))"
  have "mset (take 3 ?xs @ drop 3 ?xs) = mset (feedback_files lib now dir)"
    by simp
  moreover have "\<forall>e \<in> set (take 3 ?xs). \<forall>e' \<in> set (drop 3 ?xs). e' \<le> e"
    using take_ge_drop[of ?xs _ 3] by simp
  ultimately show ?thesis
    unfolding recent_feedback_def by blast
qed

lemma starts_with_append: "starts_with t (t @ q)"
  by (induction t) simp_all

lemma contains_self_append: "contains t (t @ q)"
  by (cases "t @ q") (use starts_with_append[of t q] in auto)

lemma contains_append: "contains t (p @ t @ q)"
  by (induction p) (simp_all add: contains_self_append)

lemma join_has: "x \<in> set xs \<Longrightarrow> \<exists>p q. join sep xs = p @ x @ q"
proof (induction sep xs rule: join.induct)
  case (1 sep)
  then show ?case by simp
next
  case (2 sep y)
  then have "join sep [y] = [] @ x @ []" by simp
  then show ?case by blast
next
  case (3 sep y z zs)
  show ?case
  proof (cases "x = y")
    case True
    then have "join sep (y # z # zs) = [] @ x @ (sep @ join sep (z # zs))" by simp
    then show ?thesis by blast
  next
    case False
    with 3 obtain p q where "join sep (z # zs) = p @ x @ q" by auto
    then have "join sep (y # z # zs) = (y @ sep @ p) @ x @ q" by simp
    then show ?thesis by blast
  qed
qed

lemma join_nonempty: "xs \<noteq> [] \<Longrightarrow> \<forall>x \<in> set xs. x \<noteq> [] \<Longrightarrow> join sep xs \<noteq> []"
  by (induction sep xs rule: join.induct) simp_all

lemma recent_nonempty:
  assumes "feedback_files lib now dir \<noteq> []"
  shows "recent_feedback lib now dir \<noteq> []"
proof -
  from assms have "0 < length (feedback_files lib now dir)" by simp
  then have "0 < length (recent_feedback lib now dir)" by (simp add: recent_length)
  then show ?thesis by simp
qed

lemma feedback_entries_readable:
  "\<forall>e \<in> set es. read_file dir (snd e) \<noteq> None \<Longrightarrow>
     feedback_entries lib dir es = Some (map (entry_text lib dir) es)"
  by (induction es) (auto simp: entry_text_def)

lemma feedback_entries_Some:
  "feedback_entries lib dir es = Some xs \<Longrightarrow> \<forall>e \<in> set es. read_file dir (snd e) \<noteq> None"
  by (induction es arbitrary: xs) (auto split: option.splits)

lemma feedback_entries_unreadable:
  assumes "\<exists>e \<in> set es. read_file dir (snd e) = None"
  shows "feedback_entries lib dir es = None"
proof (cases "feedback_entries lib dir es")
  case None
  then show ?thesis .
next
  case (Some xs)
  from feedback_entries_Some[OF this] assms show ?thesis by blast
qed

lemma entry_contains:
  assumes "e \<in> set es" and "read_file dir (snd e) = Some c"
  shows "contains c (join sep (map (entry_text lib dir) es))"
proof -
  from assms(1) have "entry_text lib dir e \<in> set (map (entry_text lib dir) es)" by simp
  from join_has[OF this] obtain p q where
    "join sep (map (entry_text lib dir) es) = p @ entry_text lib dir e @ q" by blast
  with assms(2) have "join sep (map (entry_text lib dir) es)
      = (p @ ''['' @ strftime_ymd lib (fst e) @ '']'' @ [CHR 0x0A]) @ c @ q"
    by (simp add: entry_text_def)
  then show ?thesis using contains_append by metis
qed

lemma load_readable:
  assumes "feedback_files lib now dir \<noteq> []"
    and "\<forall>e \<in> set (recent_feedback lib now dir). read_file dir (snd e) \<noteq> None"
  shows "load_previous_feedback lib now dir s =
           (Some (join [CHR 0x0A, CHR 0x0A] (map (entry_text lib dir) (recent_feedback lib now dir))), s)"
proof -
  have "join [CHR 0x0A, CHR 0x0A] (map (entry_text lib dir) (recent_feedback lib now dir)) \<noteq> []"
    by (rule join_nonempty) (use recent_nonempty[OF assms(1)] in \<open>auto simp: entry_text_def\<close>)
  with assms(1) feedback_entries_readable[OF assms(2)] show ?thesis
    by (simp add: load_previous_feedback_def Let_def)
qed

lemma load_unreadable:
  assumes "\<exists>e \<in> set (recent_feedback lib now dir). read_file dir (snd e) = None"
  shows "load_previous_feedback lib now dir s = (None, s\<lparr>printed := printed s @ [WarnFeedback]\<rparr>)"
proof -
  from assms have "recent_feedback lib now dir \<noteq> []" by auto
  then have "feedback_files lib now dir \<noteq> []" by (auto simp: recent_feedback_def)
  with feedback_entries_unreadable[OF assms] show ?thesis
    by (simp add: load_previous_feedback_def)
qed

section \<open>Previous feedback\<close>

text \<open>
  Claim C8, as the code has it. The files considered are exactly the files of the
  directory named \<^verbatim>\<open>feedback_*.txt\<close> whose date is 1 to 7 days before today, so no
  file of today and none of 8 or more days ago. Of these, \<^verbatim>\<open>_load_previous_feedback\<close>
  reads the three most recent ones, all of them when there are at most three: the files
  read are as many as the smaller of 3 and their number, in descending order of date,
  then of path, and every file considered and not read is below every file read. When
  the files read can all be read, the result is their texts joined by blank lines, so
  the content of each occurs in it; when one of them cannot be read, the result is
  \<^verbatim>\<open>None\<close> and a warning is printed; when no file is considered, the result is
  \<^verbatim>\<open>None\<close>.
\<close>

theorem previous_feedback_selection:
  "(\<forall>e \<in> set (feedback_files lib now dir).
      (\<exists>content. (snd e, content) \<in> set dir) \<and> glob_feedback (snd e) \<and>
      file_date lib (snd e) = Some (fst e) \<and>
      1 \<le> now div DAY - fst e \<and> now div DAY - fst e \<le> 7) \<and>
   (\<forall>name content d.
      (name, content) \<in> set dir \<and> glob_feedback name \<and> file_date lib name = Some d \<and>
      1 \<le> now div DAY - d \<and> now div DAY - d \<le> 7 \<longrightarrow>
      (d, name) \<in> set (feedback_files lib now dir)) \<and>
   (distinct (map fst dir) \<longrightarrow> distinct (feedback_files lib now dir)) \<and>
   length (recent_feedback lib now dir) = min 3 (length (feedback_files lib now dir)) \<and>
   sorted (rev (recent_feedback lib now dir)) \<and>
   (\<exists>older. mset (recent_feedback lib now dir @ older) = mset (feedback_files lib now dir) \<and>
      (\<forall>e \<in> set (recent_feedback lib now dir). \<forall>e' \<in> set older. e' \<le> e)) \<and>
   (feedback_files lib now dir = [] \<longrightarrow> load_previous_feedback lib now dir s = (None, s)) \<and>
   (feedback_files lib now dir \<noteq> [] \<and>
    (\<forall>e \<in> set (recent_feedback lib now dir). read_file dir (snd e) \<noteq> None) \<longrightarrow>
      load_previous_feedback lib now dir s =
        (Some (join [CHR 0x0A, CHR 0x0A]
                 (map (entry_text lib dir) (recent_feedback lib now dir))), s) \<and>
      (\<forall>e \<in> set (recent_feedback lib now dir). \<forall>c. read_file dir (snd e) = Some c \<longrightarrow>
         contains c (join [CHR 0x0A, CHR 0x0A]
                       (map (entry_text lib dir) (recent_feedback lib now dir))))) \<and>
   ((\<exists>e \<in> set (recent_feedback lib now dir). read_file dir (snd e) = None) \<longrightarrow>
      load_previous_feedback lib now dir s = (None, s\<lparr>printed := printed s @ [WarnFeedback]\<rparr>))"
proof (intro conjI)
  show "\<forall>e \<in> set (feedback_files lib now dir).
      (\<exists>content. (snd e, content) \<in> set dir) \<and> glob_feedback (snd e) \<and>
      file_date lib (snd e) = Some (fst e) \<and>
      1 \<le> now div DAY - fst e \<and> now div DAY - fst e \<le> 7"
    using feedback_files_sound[of _ lib now dir] by (simp add: days_ago_eq)
  show "\<forall>name content d.
      (name, content) \<in> set dir \<and> glob_feedback name \<and> file_date lib name = Some d \<and>
      1 \<le> now div DAY - d \<and> now div DAY - d \<le> 7 \<longrightarrow>
      (d, name) \<in> set (feedback_files lib now dir)"
    using feedback_files_complete by (simp add: days_ago_eq) blast
  show "distinct (map fst dir) \<longrightarrow> distinct (feedback_files lib now dir)"
    using feedback_files_distinct by blast
  show "length (recent_feedback lib now dir) = min 3 (length (feedback_files lib now dir))"
    by (rule recent_length)
  show "sorted (rev (recent_feedback lib now dir))"
    by (rule recent_sorted)
  show "\<exists>older. mset (recent_feedback lib now dir @ older) = mset (feedback_files lib now dir) \<and>
      (\<forall>e \<in> set (recent_feedback lib now dir). \<forall>e' \<in> set older. e' \<le> e)"
    by (rule recent_older)
  show "feedback_files lib now dir = [] \<longrightarrow> load_previous_feedback lib now dir s = (None, s)"
    by (simp add: load_previous_feedback_def)
  show "feedback_files lib now dir \<noteq> [] \<and>
    (\<forall>e \<in> set (recent_feedback lib now dir). read_file dir (snd e) \<noteq> None) \<longrightarrow>
      load_previous_feedback lib now dir s =
        (Some (join [CHR 0x0A, CHR 0x0A]
                 (map (entry_text lib dir) (recent_feedback lib now dir))), s) \<and>
      (\<forall>e \<in> set (recent_feedback lib now dir). \<forall>c. read_file dir (snd e) = Some c \<longrightarrow>
         contains c (join [CHR 0x0A, CHR 0x0A]
                       (map (entry_text lib dir) (recent_feedback lib now dir))))"
    using load_readable entry_contains by blast
  show "(\<exists>e \<in> set (recent_feedback lib now dir). read_file dir (snd e) = None) \<longrightarrow>
      load_previous_feedback lib now dir s = (None, s\<lparr>printed := printed s @ [WarnFeedback]\<rparr>)"
    using load_unreadable by blast
qed

text \<open>The theorem at a directory with files of 1, 2, 3, 4 and 8 days ago and of today,
  and at a directory whose most recent file cannot be read.\<close>

theorem previous_feedback_selection_witness:
  "feedback_files lib0 now0 dir7
     = [(19733, ''feedback_20240111.txt''), (19736, ''feedback_20240114.txt''),
        (19734, ''feedback_20240112.txt''), (19735, ''feedback_20240113.txt'')] \<and>
   recent_feedback lib0 now0 dir7
     = [(19736, ''feedback_20240114.txt''), (19735, ''feedback_20240113.txt''),
        (19734, ''feedback_20240112.txt'')] \<and>
   length (recent_feedback lib0 now0 dir7) = 3 \<and>
   load_previous_feedback lib0 now0 dir7 state0 =
     (Some (''[2024-01-14]'' @ [CHR 0x0A] @ ''one'' @ [CHR 0x0A, CHR 0x0A] @
            ''[2024-01-13]'' @ [CHR 0x0A] @ ''two'' @ [CHR 0x0A, CHR 0x0A] @
            ''[2024-01-12]'' @ [CHR 0x0A] @ ''three''), state0) \<and>
   load_previous_feedback lib0 now0 dir_locked state0 =
     (None, state0\<lparr>printed := [WarnFeedback]\<rparr>) \<and>
   now0 div DAY = 19737"
proof -
  have f: "feedback_files lib0 now0 dir7
     = [(19733, ''feedback_20240111.txt''), (19736, ''feedback_20240114.txt''),
        (19734, ''feedback_20240112.txt''), (19735, ''feedback_20240113.txt'')]"
    by code_simp
  have r: "recent_feedback lib0 now0 dir7
     = [(19736, ''feedback_20240114.txt''), (19735, ''feedback_20240113.txt''),
        (19734, ''feedback_20240112.txt'')]"
    by code_simp
  have rd: "\<forall>e \<in> set (recent_feedback lib0 now0 dir7). read_file dir7 (snd e) \<noteq> None"
    unfolding r by code_simp
  have j: "join [CHR 0x0A, CHR 0x0A] (map (entry_text lib0 dir7)
             [(19736, ''feedback_20240114.txt''), (19735, ''feedback_20240113.txt''),
              (19734, ''feedback_20240112.txt'')])
      = ''[2024-01-14]'' @ [CHR 0x0A] @ ''one'' @ [CHR 0x0A, CHR 0x0A] @
        ''[2024-01-13]'' @ [CHR 0x0A] @ ''two'' @ [CHR 0x0A, CHR 0x0A] @
        ''[2024-01-12]'' @ [CHR 0x0A] @ ''three''"
    by code_simp
  have rl: "recent_feedback lib0 now0 dir_locked
     = [(19736, ''feedback_20240114.txt''), (19735, ''feedback_20240113.txt'')]"
    by code_simp
  have ul: "\<exists>e \<in> set (recent_feedback lib0 now0 dir_locked). read_file dir_locked (snd e) = None"
    unfolding rl by code_simp
  have n: "now0 div DAY = 19737"
    by (simp add: now0_def DAY_def)
  note t = previous_feedback_selection [of lib0 now0 dir7 state0]
  note u = previous_feedback_selection [of lib0 now0 dir_locked state0]
  from t have "length (recent_feedback lib0 now0 dir7) = min 3 (length (feedback_files lib0 now0 dir7))"
    by blast
  then have l: "length (recent_feedback lib0 now0 dir7) = 3" by (simp add: f)
  from f have "feedback_files lib0 now0 dir7 \<noteq> []" by simp
  with t rd have "load_previous_feedback lib0 now0 dir7 state0 =
        (Some (join [CHR 0x0A, CHR 0x0A]
                 (map (entry_text lib0 dir7) (recent_feedback lib0 now0 dir7))), state0)"
    by blast
  then have lp: "load_previous_feedback lib0 now0 dir7 state0 =
     (Some (''[2024-01-14]'' @ [CHR 0x0A] @ ''one'' @ [CHR 0x0A, CHR 0x0A] @
            ''[2024-01-13]'' @ [CHR 0x0A] @ ''two'' @ [CHR 0x0A, CHR 0x0A] @
            ''[2024-01-12]'' @ [CHR 0x0A] @ ''three''), state0)"
    unfolding r j .
  from u ul have "load_previous_feedback lib0 now0 dir_locked state0 =
      (None, state0\<lparr>printed := printed state0 @ [WarnFeedback]\<rparr>)"
    by blast
  then have lk: "load_previous_feedback lib0 now0 dir_locked state0 =
      (None, state0\<lparr>printed := [WarnFeedback]\<rparr>)"
    by (simp add: state0_def)
  from f r l lp lk n show ?thesis by blast
qed

text \<open>With files of 1, 2, 3 and 4 days ago, the file of 4 days ago is dated within
  the week and is not read, against C8 as stated.\<close>

theorem previous_feedback_only_three:
  "file_date lib0 ''feedback_20240111.txt'' = Some 19733 \<and>
   days_ago now0 19733 = 4 \<and>
   recent_feedback lib0 now0 dir4
     = [(19736, ''feedback_20240114.txt''), (19735, ''feedback_20240113.txt''),
        (19734, ''feedback_20240112.txt'')] \<and>
   fst (load_previous_feedback lib0 now0 dir4 state0) =
     Some (''[2024-01-14]'' @ [CHR 0x0A] @ ''one'' @ [CHR 0x0A, CHR 0x0A] @
           ''[2024-01-13]'' @ [CHR 0x0A] @ ''two'' @ [CHR 0x0A, CHR 0x0A] @
           ''[2024-01-12]'' @ [CHR 0x0A] @ ''three'')"
  by code_simp

end
